theory Spec2Isabelle
  imports Main
begin

section \<open>Build-option resolution of the Bitrise trigger action\<close>

text \<open>
  A shallow embedding of \<^verbatim>\<open>src/bitrise/options.ts\<close>. The functions of the
  source read three ambient values: the inputs of the action (\<^verbatim>\<open>core.getInput\<close>,
  \<^verbatim>\<open>core.getBooleanInput\<close>), the event context (\<^verbatim>\<open>github.context\<close>) and the
  process environment (\<^verbatim>\<open>process.env\<close>). Here each of them is an explicit argument,
  holding the values those calls return. The reporting calls \<^verbatim>\<open>core.setFailed\<close>,
  \<^verbatim>\<open>core.warning\<close> and \<^verbatim>\<open>core.info\<close> do not interrupt the control flow; every
  function that makes them returns, beside its value, the list of reports it made, in order.
\<close>

subsection \<open>JavaScript values and objects\<close>

record CommitPathsFilter =
  added :: "string list"
  removed :: "string list"
  modified :: "string list"

record BitriseEnvironment =
  mapped_to :: string
  env_value :: string
  is_expand :: bool

text \<open>
  The values stored in an options object. \<open>Undefined\<close> is a value of its own: a key that
  is present with the value \<open>undefined\<close> differs from an absent key under object spread.
\<close>

datatype jsval =
    Undefined
  | Str string
  | Num nat
  | Bool bool
  | StrList "string list"
  | Paths "CommitPathsFilter list"
  | Envs "BitriseEnvironment list"

text \<open>
  \<^verbatim>\<open>Record<string, any>\<close>: a finite map from keys to values. The spread
  \<^verbatim>\<open>{...a, ...b}\<close> is \<open>a ++ b\<close>; the property read \<^verbatim>\<open>o.k\<close> is \<open>get o k\<close>.
\<close>

type_synonym options = "string \<rightharpoonup> jsval"

definition get :: "options \<Rightarrow> string \<Rightarrow> jsval" where
  "get obj k = (case obj k of None \<Rightarrow> Undefined | Some v \<Rightarrow> v)"

text \<open>\<^verbatim>\<open>o?.k\<close> on an object that may be \<^verbatim>\<open>null\<close>.\<close>

definition getOpt :: "options option \<Rightarrow> string \<Rightarrow> jsval" where
  "getOpt obj k = (case obj of None \<Rightarrow> Undefined | Some m \<Rightarrow> get m k)"

text \<open>Truthiness of a value in a condition.\<close>

fun truthy :: "jsval \<Rightarrow> bool" where
  "truthy Undefined = False"
| "truthy (Str s) = (s \<noteq> [])"
| "truthy (Num n) = (n \<noteq> 0)"
| "truthy (Bool b) = b"
| "truthy (StrList xs) = True"
| "truthy (Paths ps) = True"
| "truthy (Envs es) = True"

definition startsWith :: "string \<Rightarrow> string \<Rightarrow> bool" where
  "startsWith s p = (take (length p) s = p)"

text \<open>\<^verbatim>\<open>s.slice(n)\<close> for \<open>0 \<le> n\<close>.\<close>

definition slice :: "string \<Rightarrow> nat \<Rightarrow> string" where
  "slice s n = drop n s"

text \<open>The decimal digits of a number, as a template literal prints it.\<close>

fun string_of_nat :: "nat \<Rightarrow> string" where
  "string_of_nat n =
     (if n < 10 then [''0123456789'' ! n]
      else string_of_nat (n div 10) @ [''0123456789'' ! (n mod 10)])"

text \<open>
  A value inside a template literal. Only strings and \<open>undefined\<close> reach the one place
  that prints a value (the repository URL of the mismatch warning).
\<close>

fun template :: "jsval \<Rightarrow> string" where
  "template (Str s) = s"
| "template (Num n) = string_of_nat n"
| "template (Bool b) = (if b then ''true'' else ''false'')"
| "template v = ''undefined''"

subsection \<open>The event context, the inputs and the reports\<close>

record account =
  login :: string

record repository =
  is_private :: bool
  ssh_url :: string
  clone_url :: string
  owner :: "account option"

record commit =
  message :: string
  commit_added :: "string list"
  commit_removed :: "string list"
  commit_modified :: "string list"

record pr_branch =
  branch_ref :: string
  branch_sha :: string
  branch_repo :: "repository option"

record pull_request =
  number :: nat
  mergeable :: "bool option"
  title :: string
  body :: "string option"
  draft :: bool
  action :: "string option"
  head :: "pr_branch option"
  base :: "pr_branch option"
  user :: "account option"
  diff_url :: string

record payload =
  deleted :: bool
  commits :: "commit list option"
  head_commit :: "commit option"
  repository :: "repository option"
  pull_request :: "pull_request option"

text \<open>\<^verbatim>\<open>github.context\<close>.\<close>

record github_context =
  eventName :: string
  ref :: string
  sha :: string
  payload :: "payload option"

text \<open>
  The inputs of the action, as \<^verbatim>\<open>core.getInput\<close> (a string, empty when the input is
  not given) and \<^verbatim>\<open>core.getBooleanInput\<close> return them.
\<close>

record inputs =
  bitrise_workflow :: string
  bitrise_pipeline :: string
  listen :: bool
  branch_override :: string
  commit_override :: string
  skip_git_status_report :: bool
  env_vars_for_bitrise :: string

record BitriseAppDetails =
  repo_url :: string

text \<open>
  The reports. \<open>InfoOptions\<close> stands for the message that prints the options as JSON; it
  carries the options themselves.
\<close>

datatype report =
    SetFailed string
  | Warning string
  | Info string
  | InfoOptions options

type_synonym process_env = "(string \<times> string option) list"

subsection \<open>Repository URL and ready state\<close>

definition getRepositoryURL :: "repository option \<Rightarrow> jsval" where
  "getRepositoryURL repoInfoModel =
     (case repoInfoModel of
        None \<Rightarrow> Undefined
      | Some r \<Rightarrow> if is_private r then Str (ssh_url r) else Str (clone_url r))"

definition getPrReadyState :: "pull_request \<Rightarrow> string" where
  "getPrReadyState pr =
     (if action pr = Some ''ready_for_review'' then ''converted_to_ready_for_review''
      else if draft pr then ''draft''
      else ''ready_for_review'')"

subsection \<open>Environment passthrough\<close>

text \<open>\<^verbatim>\<open>s.split(',')\<close>: the empty string splits into one empty piece.\<close>

fun split_on :: "char \<Rightarrow> string \<Rightarrow> string list" where
  "split_on c [] = [[]]"
| "split_on c (x # xs) =
     (if x = c then [] # split_on c xs
      else (case split_on c xs of
              [] \<Rightarrow> [[x]]
            | w # ws \<Rightarrow> (x # w) # ws))"

text \<open>
  The white space \<^verbatim>\<open>trim\<close> removes, among the characters a \<^typ>\<open>string\<close> holds: tab,
  line feed, vertical tab, form feed, carriage return, space and no-break space.
\<close>

definition js_whitespace :: "char \<Rightarrow> bool" where
  "js_whitespace c = (of_char c \<in> {9, 10, 11, 12, 13, 32, 160 :: nat})"

definition trim :: "string \<Rightarrow> string" where
  "trim s = rev (dropWhile js_whitespace (rev (dropWhile js_whitespace s)))"

definition envPassThrough :: "string \<Rightarrow> string list" where
  "envPassThrough raw = filter (\<lambda>i. i \<noteq> []) (map trim (split_on CHR '','' raw))"

definition prepareEnvironmentVariables :: "string \<Rightarrow> process_env \<Rightarrow> BitriseEnvironment list" where
  "prepareEnvironmentVariables raw penv =
     map (\<lambda>(k, v). \<lparr>mapped_to = k,
                    env_value = (case v of None \<Rightarrow> [] | Some s \<Rightarrow> s),
                    is_expand = False\<rparr>)
       (filter (\<lambda>(key, v). key \<in> set (envPassThrough raw)) penv)"

subsection \<open>The base-event transform\<close>

definition strOpt :: "string option \<Rightarrow> jsval" where
  "strOpt x = (case x of None \<Rightarrow> Undefined | Some s \<Rightarrow> Str s)"

definition transformBasicEvent :: "github_context \<Rightarrow> payload \<Rightarrow> options \<times> report list" where
  "transformBasicEvent ctx p =
     (if deleted p then
        (Map.empty, [SetFailed ''this is a 'Deleted' event, no build can be started''])
      else
        let commits = (case commits p of
                         Some cs \<Rightarrow> cs
                       | None \<Rightarrow> (case head_commit p of Some c \<Rightarrow> [c] | None \<Rightarrow> []));
            r = ref ctx;
            isBranch = startsWith r ''refs/heads/'';
            commitMessages = (if isBranch then map message commits else []);
            commitPaths = (if isBranch
                           then map (\<lambda>c. \<lparr>added = commit_added c,
                                           removed = commit_removed c,
                                           modified = commit_modified c\<rparr>) commits
                           else []);
            opts = (if isBranch then [''branch'' \<mapsto> Str (slice r 11)]
                    else if startsWith r ''refs/tags/'' then [''tag'' \<mapsto> Str (slice r 10)]
                    else Map.empty)
        in (opts ++ [''commit_hash'' \<mapsto> Str (sha ctx),
                     ''commit_message'' \<mapsto> strOpt (map_option message (head_commit p)),
                     ''commit_messages'' \<mapsto> StrList commitMessages,
                     ''commit_paths'' \<mapsto> Paths commitPaths,
                     ''base_repository_url'' \<mapsto> getRepositoryURL (repository p)],
            []))"

subsection \<open>The pull-request transform\<close>

definition transformPullRequestEvent :: "pull_request \<Rightarrow> options \<times> report list" where
  "transformPullRequestEvent pr =
     (let prNumber = number pr;
          options0 = [''pull_request_unverified_merge_branch'' \<mapsto>
                        Str (''pull/'' @ string_of_nat prNumber @ ''/merge'')];
          mergeRefUpToDate = (mergeable pr \<noteq> None);
          options1 = (if mergeRefUpToDate
                      then options0(''pull_request_merge_branch'' \<mapsto>
                             get options0 ''pull_request_unverified_merge_branch'')
                      else options0)
      in if mergeRefUpToDate \<and> mergeable pr = Some False then
           (Map.empty, [SetFailed ''Pull Request is not mergeable''])
         else
           let commitMsg = title pr @
                 (case body pr of
                    None \<Rightarrow> []
                  | Some b \<Rightarrow> if b \<noteq> [] then [CHR 0x0A, CHR 0x0A] @ b else [])
           in (options1 ++
                 [''commit_hash'' \<mapsto> strOpt (map_option branch_sha (head pr)),
                  ''commit_message'' \<mapsto> Str commitMsg,
                  ''branch'' \<mapsto> strOpt (map_option branch_ref (head pr)),
                  ''branch_repo_owner'' \<mapsto>
                     strOpt (map_option login (Option.bind (Option.bind (head pr) branch_repo) owner)),
                  ''branch_dest'' \<mapsto> strOpt (map_option branch_ref (base pr)),
                  ''branch_dest_repo_owner'' \<mapsto>
                     strOpt (map_option login (Option.bind (Option.bind (base pr) branch_repo) owner)),
                  ''pull_request_id'' \<mapsto> Num prNumber,
                  ''head_repository_url'' \<mapsto> getRepositoryURL (Option.bind (head pr) branch_repo),
                  ''pull_request_repository_url'' \<mapsto>
                     getRepositoryURL (Option.bind (head pr) branch_repo),
                  ''base_repository_url'' \<mapsto> getRepositoryURL (Option.bind (base pr) branch_repo),
                  ''pull_request_head_branch'' \<mapsto>
                     Str (''pull/'' @ string_of_nat prNumber @ ''/head''),
                  ''pull_request_author'' \<mapsto> strOpt (map_option login (user pr)),
                  ''diff_url'' \<mapsto> Str (diff_url pr),
                  ''pull_request_ready_state'' \<mapsto> Str (getPrReadyState pr)],
               []))"

subsection \<open>The override transform\<close>

text \<open>
  \<^verbatim>\<open>urlsReferTheSameGitHubRepo\<close> is imported from \<^verbatim>\<open>../utils\<close>; it is the argument
  \<open>sameRepo\<close> of the functions that call it: from the application's repository URL and a
  value that may be \<open>undefined\<close> to a truth value.

  \<open>processOverrides\<close> is three steps in a row, each a definition here: the options the
  override alone gives (lines 195 to 216), the adoption of the default options (lines 217
  to 237) and the narrowing to the commit override (lines 238 to 245).
\<close>

definition overrideBranchOptions :: "BitriseAppDetails option \<Rightarrow> string \<Rightarrow> options" where
  "overrideBranchOptions appDetails branchOverride =
     (let branchOptions =
            (case appDetails of
               None \<Rightarrow> Map.empty
             | Some a \<Rightarrow> if repo_url a \<noteq> []
                        then [''base_repository_url'' \<mapsto> Str (repo_url a)]
                        else Map.empty)
      in if startsWith branchOverride ''refs/heads/'' then
           branchOptions ++ [''branch'' \<mapsto> Str (slice branchOverride 11)]
         else if startsWith branchOverride ''refs/tags/'' then
           branchOptions ++ [''tag'' \<mapsto> Str (slice branchOverride 10)]
         else if branchOverride \<noteq> [] then
           branchOptions ++ [''branch'' \<mapsto> Str branchOverride]
         else branchOptions)"

definition useDefaultOptions ::
  "(string \<Rightarrow> jsval \<Rightarrow> bool) \<Rightarrow> BitriseAppDetails option \<Rightarrow> options option \<Rightarrow> string \<Rightarrow>
   options \<Rightarrow> options" where
  "useDefaultOptions sameRepo appDetails defaultBranchOptions branchOverride branchOptions =
     (if branchOverride \<noteq> [] \<and>
         ((truthy (get branchOptions ''branch'') \<and>
           get branchOptions ''branch'' = getOpt defaultBranchOptions ''branch'') \<or>
          (truthy (get branchOptions ''tag'') \<and>
           get branchOptions ''tag'' = getOpt defaultBranchOptions ''tag''))
      then
        (case appDetails of
           None \<Rightarrow> branchOptions
         | Some a \<Rightarrow>
             if repo_url a \<noteq> [] \<and>
                sameRepo (repo_url a) (getOpt defaultBranchOptions ''base_repository_url'')
             then branchOptions ++ (case defaultBranchOptions of None \<Rightarrow> Map.empty | Some d \<Rightarrow> d)
             else branchOptions)
      else branchOptions)"

definition narrowToCommit :: "options option \<Rightarrow> string \<Rightarrow> options \<Rightarrow> options" where
  "narrowToCommit defaultBranchOptions commitOverride branchOptions =
     (if commitOverride \<noteq> [] \<and> Str commitOverride \<noteq> getOpt defaultBranchOptions ''commit_hash''
      then [''branch'' \<mapsto> get branchOptions ''branch'',
            ''tag'' \<mapsto> get branchOptions ''tag'',
            ''commit_hash'' \<mapsto> Str commitOverride,
            ''base_repository_url'' \<mapsto> get branchOptions ''base_repository_url'']
      else branchOptions)"

definition processOverrides ::
  "(string \<Rightarrow> jsval \<Rightarrow> bool) \<Rightarrow> BitriseAppDetails option \<Rightarrow> options option \<Rightarrow> string \<Rightarrow>
   string \<Rightarrow> options \<times> report list" where
  \<open>processOverrides sameRepo appDetails defaultBranchOptions branchOverride commitOverride =
     (narrowToCommit defaultBranchOptions commitOverride
        (useDefaultOptions sameRepo appDetails defaultBranchOptions branchOverride
           (overrideBranchOptions appDetails branchOverride)),
      if appDetails = None
      then [Warning ''It is recommended to use "bitrise-token" with overrides options.'']
      else [])\<close>

subsection \<open>The resolver\<close>

text \<open>Lines 74 to 100: the mismatch warning and the returned object.\<close>

definition finishBuildOptions ::
  "(string \<Rightarrow> jsval \<Rightarrow> bool) \<Rightarrow> inputs \<Rightarrow> BitriseAppDetails option \<Rightarrow> options \<Rightarrow>
   BitriseEnvironment list \<Rightarrow> options \<times> report list" where
  \<open>finishBuildOptions sameRepo inp appDetails opts environments =
     (opts ++
        [''workflow_id'' \<mapsto>
           (if bitrise_workflow inp \<noteq> [] then Str (bitrise_workflow inp) else Undefined),
         ''pipeline_id'' \<mapsto>
           (if bitrise_pipeline inp \<noteq> [] then Str (bitrise_pipeline inp) else Undefined),
         ''skip_git_status_report'' \<mapsto> Bool (skip_git_status_report inp),
         ''environments'' \<mapsto> Envs environments],
      (case appDetails of
         None \<Rightarrow> []
       | Some a \<Rightarrow>
           if repo_url a \<noteq> [] \<and> \<not> sameRepo (repo_url a) (get opts ''base_repository_url'')
           then [Warning (''Bitrise App's repository url "'' @ repo_url a @
                          ''" doesn't match current repository url "'' @
                          template (get opts ''base_repository_url'') @ ''"'')]
           else []) @
      [InfoOptions opts])\<close>

definition createBuildOptions ::
  "(string \<Rightarrow> jsval \<Rightarrow> bool) \<Rightarrow> inputs \<Rightarrow> github_context \<Rightarrow> process_env \<Rightarrow>
   BitriseAppDetails option \<Rightarrow> options \<times> report list" where
  \<open>createBuildOptions sameRepo inp ctx penv appDetails =
     (let workflow = bitrise_workflow inp;
          pipeline = bitrise_pipeline inp
      in
      if workflow = [] \<and> pipeline = [] then
        (Map.empty, [SetFailed ''Either bitrise-workflow or bitrise-pipeline must be provided''])
      else if workflow \<noteq> [] \<and> pipeline \<noteq> [] then
        (Map.empty, [SetFailed ''Cannot specify both bitrise-workflow and bitrise-pipeline''])
      else if pipeline \<noteq> [] \<and> listen inp then
        (Map.empty, [SetFailed ''Listen option is not supported with bitrise-pipeline''])
      else
        let log0 = [Info (''Process "'' @ eventName ctx @ ''" event'')];
            environments = prepareEnvironmentVariables (env_vars_for_bitrise inp) penv;
            (defaultBranchOptions, log1) =
               (case payload ctx of
                  None \<Rightarrow> (None, [])
                | Some p \<Rightarrow> (Some (fst (transformBasicEvent ctx p)),
                             snd (transformBasicEvent ctx p)));
            branchOverride = branch_override inp;
            commitOverride = commit_override inp
        in
        if branchOverride \<noteq> [] \<or> commitOverride \<noteq> [] then
          let (opts, log2) = processOverrides sameRepo appDetails defaultBranchOptions
                               branchOverride commitOverride;
              (res, log3) = finishBuildOptions sameRepo inp appDetails opts environments
          in (res, log0 @ log1 @ log2 @ log3)
        else
          (case Option.bind (payload ctx) pull_request of
             Some pr \<Rightarrow>
               let (opts, log2) = transformPullRequestEvent pr;
                   environments' =
                     (if draft pr
                      then environments @
                           [\<lparr>mapped_to = ''GITHUB_PR_IS_DRAFT'', env_value = ''true'',
                             is_expand = False\<rparr>]
                      else environments);
                   (res, log3) = finishBuildOptions sameRepo inp appDetails opts environments'
               in (res, log0 @ log1 @ log2 @ log3)
           | None \<Rightarrow>
               (case defaultBranchOptions of
                  None \<Rightarrow>
                    (Map.empty, log0 @ log1 @ [SetFailed ''No payload found in the context.''])
                | Some opts \<Rightarrow>
                    let (res, log3) = finishBuildOptions sameRepo inp appDetails opts environments
                    in (res, log0 @ log1 @ log3))))\<close>

text \<open>
  Lines 21 to 36: the inputs pass the three guards on the workflow, the pipeline and the
  listen option.
\<close>

definition accepted :: "inputs \<Rightarrow> bool" where
  "accepted inp =
     (\<not> (bitrise_workflow inp = [] \<and> bitrise_pipeline inp = []) \<and>
      \<not> (bitrise_workflow inp \<noteq> [] \<and> bitrise_pipeline inp \<noteq> []) \<and>
      \<not> (bitrise_pipeline inp \<noteq> [] \<and> listen inp))"

text \<open>Lines 40 to 46: the value of \<^verbatim>\<open>defaultBranchOptions\<close> after the payload test.\<close>

definition defaultOptions :: "github_context \<Rightarrow> options option" where
  "defaultOptions ctx = map_option (\<lambda>p. fst (transformBasicEvent ctx p)) (payload ctx)"

subsection \<open>Example events\<close>

text \<open>
  A stand-in for the imported comparison, used only to run the resolver on the examples
  below: two URLs name one repository when they are the same string.
\<close>

definition exact_url_match :: "string \<Rightarrow> jsval \<Rightarrow> bool" where
  "exact_url_match a b = (b = Str a)"

definition ex_repo :: repository where
  "ex_repo = \<lparr>is_private = False, ssh_url = ''git@github.com:acme/app.git'',
              clone_url = ''https://github.com/acme/app.git'',
              owner = Some \<lparr>login = ''acme''\<rparr>\<rparr>"

definition ex_commit1 :: commit where
  "ex_commit1 = \<lparr>message = ''add login'', commit_added = [''login.ts''],
                 commit_removed = [], commit_modified = []\<rparr>"

definition ex_commit2 :: commit where
  "ex_commit2 = \<lparr>message = ''fix typo'', commit_added = [],
                 commit_removed = [''old.ts''], commit_modified = [''README.md'']\<rparr>"

definition ex_push :: payload where
  "ex_push = \<lparr>deleted = False, commits = Some [ex_commit1, ex_commit2],
              head_commit = Some ex_commit2, repository = Some ex_repo,
              pull_request = None\<rparr>"

definition ex_push_ctx :: github_context where
  "ex_push_ctx = \<lparr>eventName = ''push'', ref = ''refs/heads/main'', sha = ''abc123'',
                  payload = Some ex_push\<rparr>"

definition ex_tag_ctx :: github_context where
  "ex_tag_ctx = \<lparr>eventName = ''push'', ref = ''refs/tags/v1.0'', sha = ''abc123'',
                 payload = Some ex_push\<rparr>"

definition ex_deleted :: payload where
  "ex_deleted = \<lparr>deleted = True, commits = Some [], head_commit = None,
                 repository = Some ex_repo, pull_request = None\<rparr>"

definition ex_deleted_ctx :: github_context where
  "ex_deleted_ctx = \<lparr>eventName = ''push'', ref = ''refs/heads/old'', sha = ''000000'',
                     payload = Some ex_deleted\<rparr>"

definition ex_pr :: pull_request where
  "ex_pr = \<lparr>number = 42, mergeable = Some True, title = ''Add login'',
            body = Some ''Details'', draft = True, action = None,
            head = Some \<lparr>branch_ref = ''feature'', branch_sha = ''def456'',
                         branch_repo = Some ex_repo\<rparr>,
            base = Some \<lparr>branch_ref = ''main'', branch_sha = ''abc123'',
                         branch_repo = Some ex_repo\<rparr>,
            user = Some \<lparr>login = ''dev''\<rparr>,
            diff_url = ''https://github.com/acme/app/pull/42.diff''\<rparr>"

definition ex_pr_payload :: "pull_request \<Rightarrow> payload" where
  "ex_pr_payload pr = \<lparr>deleted = False, commits = None, head_commit = None,
                       repository = Some ex_repo, pull_request = Some pr\<rparr>"

definition ex_pr_ctx :: "pull_request \<Rightarrow> github_context" where
  "ex_pr_ctx pr = \<lparr>eventName = ''pull_request'', ref = ''refs/pull/42/merge'',
                   sha = ''fff999'', payload = Some (ex_pr_payload pr)\<rparr>"

definition ex_inputs :: inputs where
  "ex_inputs = \<lparr>bitrise_workflow = ''primary'', bitrise_pipeline = [], listen = False,
                branch_override = [], commit_override = [],
                skip_git_status_report = False, env_vars_for_bitrise = []\<rparr>"

definition ex_app :: BitriseAppDetails where
  "ex_app = \<lparr>repo_url = ''https://github.com/acme/app.git''\<rparr>"

definition ex_both :: inputs where
  "ex_both = ex_inputs\<lparr>bitrise_pipeline := ''release''\<rparr>"

definition ex_override_inputs :: inputs where
  "ex_override_inputs = ex_inputs\<lparr>branch_override := ''release''\<rparr>"

definition ex_collapse_inputs :: inputs where
  "ex_collapse_inputs =
     ex_inputs\<lparr>branch_override := ''refs/heads/main'', commit_override := ''older1''\<rparr>"

text \<open>
  The words of the specification for the passthrough, to compare with the source: one entry
  for each name of the allow-list that the environment holds, in the order in which the
  allow-list lists the names.
\<close>

definition passthrough_in_allow_list_order ::
  "string list \<Rightarrow> process_env \<Rightarrow> BitriseEnvironment list" where
  "passthrough_in_allow_list_order allow penv =
     concat (map (\<lambda>name. case map_of penv name of
                            None \<Rightarrow> []
                          | Some v \<Rightarrow> [\<lparr>mapped_to = name,
                                        env_value = (case v of None \<Rightarrow> [] | Some s \<Rightarrow> s),
                                        is_expand = False\<rparr>])
                 (remdups allow))"

definition ex_env :: process_env where
  "ex_env = [(''A'', Some ''1''), (''B'', Some ''2'')]"

definition ex_deleted_main_ctx :: github_context where
  "ex_deleted_main_ctx = \<lparr>eventName = ''push'', ref = ''refs/heads/main'', sha = ''000000'',
                          payload = Some ex_deleted\<rparr>"

definition ex_empty_ref_ctx :: github_context where
  "ex_empty_ref_ctx = \<lparr>eventName = ''push'', ref = ''refs/heads/'', sha = ''abc123'',
                       payload = Some ex_push\<rparr>"

definition ex_unmergeable :: pull_request where
  "ex_unmergeable = ex_pr\<lparr>mergeable := Some False, draft := False\<rparr>"

lemmas ex_defs =
  exact_url_match_def ex_repo_def ex_commit1_def ex_commit2_def ex_push_def ex_push_ctx_def
  ex_tag_ctx_def ex_deleted_def ex_deleted_ctx_def ex_pr_def ex_pr_payload_def ex_pr_ctx_def
  ex_inputs_def ex_app_def

section \<open>Properties\<close>

subsection \<open>The paths through the resolver\<close>

lemma finishBuildOptions_other:
  "k \<noteq> ''workflow_id'' \<Longrightarrow> k \<noteq> ''pipeline_id'' \<Longrightarrow> k \<noteq> ''skip_git_status_report'' \<Longrightarrow>
   k \<noteq> ''environments'' \<Longrightarrow>
   fst (finishBuildOptions sameRepo inp appDetails opts envs) k = opts k"
  by (simp add: finishBuildOptions_def map_add_def)

lemma createBuildOptions_rejected:
  "\<not> accepted inp \<Longrightarrow> fst (createBuildOptions sameRepo inp ctx penv appDetails) = Map.empty"
  by (auto simp add: createBuildOptions_def accepted_def Let_def)

lemma createBuildOptions_override:
  "accepted inp \<Longrightarrow> branch_override inp \<noteq> [] \<or> commit_override inp \<noteq> [] \<Longrightarrow>
   fst (createBuildOptions sameRepo inp ctx penv appDetails) =
   fst (finishBuildOptions sameRepo inp appDetails
         (fst (processOverrides sameRepo appDetails (defaultOptions ctx)
                 (branch_override inp) (commit_override inp)))
         (prepareEnvironmentVariables (env_vars_for_bitrise inp) penv))"
  by (auto simp add: createBuildOptions_def accepted_def defaultOptions_def Let_def
      split: option.splits prod.splits)

lemma createBuildOptions_pull_request:
  "accepted inp \<Longrightarrow> branch_override inp = [] \<Longrightarrow> commit_override inp = [] \<Longrightarrow>
   payload ctx = Some p \<Longrightarrow> pull_request p = Some pr \<Longrightarrow>
   fst (createBuildOptions sameRepo inp ctx penv appDetails) =
   fst (finishBuildOptions sameRepo inp appDetails (fst (transformPullRequestEvent pr))
         (if draft pr
          then prepareEnvironmentVariables (env_vars_for_bitrise inp) penv @
               [\<lparr>mapped_to = ''GITHUB_PR_IS_DRAFT'', env_value = ''true'', is_expand = False\<rparr>]
          else prepareEnvironmentVariables (env_vars_for_bitrise inp) penv))"
  by (auto simp add: createBuildOptions_def accepted_def Let_def
      split: option.splits prod.splits)

lemma createBuildOptions_basic:
  "accepted inp \<Longrightarrow> branch_override inp = [] \<Longrightarrow> commit_override inp = [] \<Longrightarrow>
   payload ctx = Some p \<Longrightarrow> pull_request p = None \<Longrightarrow>
   fst (createBuildOptions sameRepo inp ctx penv appDetails) =
   fst (finishBuildOptions sameRepo inp appDetails (fst (transformBasicEvent ctx p))
         (prepareEnvironmentVariables (env_vars_for_bitrise inp) penv))"
  by (auto simp add: createBuildOptions_def accepted_def Let_def
      split: option.splits prod.splits)

lemma createBuildOptions_no_payload:
  "accepted inp \<Longrightarrow> branch_override inp = [] \<Longrightarrow> commit_override inp = [] \<Longrightarrow>
   payload ctx = None \<Longrightarrow>
   fst (createBuildOptions sameRepo inp ctx penv appDetails) = Map.empty"
  by (auto simp add: createBuildOptions_def accepted_def Let_def
      split: option.splits prod.splits)

subsection \<open>The base-event transform\<close>

lemma transformBasicEvent_branch:
  "\<not> deleted p \<Longrightarrow> ref ctx = ''refs/heads/'' @ b \<Longrightarrow>
   fst (transformBasicEvent ctx p) ''branch'' = Some (Str b) \<and>
   fst (transformBasicEvent ctx p) ''tag'' = None"
  by (simp add: transformBasicEvent_def startsWith_def slice_def Let_def map_add_def)

lemma transformBasicEvent_tag:
  "\<not> deleted p \<Longrightarrow> ref ctx = ''refs/tags/'' @ t \<Longrightarrow>
   fst (transformBasicEvent ctx p) ''tag'' = Some (Str t) \<and>
   fst (transformBasicEvent ctx p) ''branch'' = None"
  by (simp add: transformBasicEvent_def startsWith_def slice_def Let_def map_add_def)

text \<open>
  C8, as amended. For an event that is not a pull request and does not delete its ref, with
  accepted inputs and no override: when the ref is \<^verbatim>\<open>refs/heads/\<close> followed by a name,
  the returned options have that name as \<open>branch\<close> and no \<open>tag\<close>; when the ref is
  \<^verbatim>\<open>refs/tags/\<close> followed by a name, they have that name as \<open>tag\<close> and no \<open>branch\<close>.
  With the names \<^verbatim>\<open>main\<close> and \<^verbatim>\<open>v1.0\<close> these are the two events of the claim.
\<close>

theorem createBuildOptions_strips_ref_namespace:
  assumes "accepted inp"
    and "branch_override inp = []" and "commit_override inp = []"
    and "payload ctx = Some p" and "pull_request p = None" and "\<not> deleted p"
  shows "(ref ctx = ''refs/heads/'' @ b \<longrightarrow>
            fst (createBuildOptions sameRepo inp ctx penv appDetails) ''branch'' = Some (Str b) \<and>
            fst (createBuildOptions sameRepo inp ctx penv appDetails) ''tag'' = None) \<and>
         (ref ctx = ''refs/tags/'' @ t \<longrightarrow>
            fst (createBuildOptions sameRepo inp ctx penv appDetails) ''tag'' = Some (Str t) \<and>
            fst (createBuildOptions sameRepo inp ctx penv appDetails) ''branch'' = None)"
proof -
  have out: "fst (createBuildOptions sameRepo inp ctx penv appDetails) k =
             fst (transformBasicEvent ctx p) k"
    if "k = ''branch'' \<or> k = ''tag''" for k
    using that assms
    by (auto simp add: createBuildOptions_basic finishBuildOptions_other)
  show ?thesis
    using transformBasicEvent_branch [OF assms(6), of ctx b]
      transformBasicEvent_tag [OF assms(6), of ctx t]
    by (simp add: out)
qed

theorem createBuildOptions_strips_ref_namespace_witness:
  "accepted ex_inputs \<and> branch_override ex_inputs = [] \<and> commit_override ex_inputs = [] \<and>
   payload ex_push_ctx = Some ex_push \<and> payload ex_tag_ctx = Some ex_push \<and>
   pull_request ex_push = None \<and> \<not> deleted ex_push \<and>
   ref ex_push_ctx = ''refs/heads/'' @ ''main'' \<and> ref ex_tag_ctx = ''refs/tags/'' @ ''v1.0'' \<and>
   fst (createBuildOptions exact_url_match ex_inputs ex_push_ctx [] None) ''branch'' =
     Some (Str ''main'') \<and>
   fst (createBuildOptions exact_url_match ex_inputs ex_push_ctx [] None) ''tag'' = None \<and>
   fst (createBuildOptions exact_url_match ex_inputs ex_tag_ctx [] None) ''tag'' =
     Some (Str ''v1.0'') \<and>
   fst (createBuildOptions exact_url_match ex_inputs ex_tag_ctx [] None) ''branch'' = None"
proof -
  have a: "accepted ex_inputs" "branch_override ex_inputs = []" "commit_override ex_inputs = []"
    "pull_request ex_push = None" "\<not> deleted ex_push"
    by (simp_all add: accepted_def ex_defs)
  have p1: "payload ex_push_ctx = Some ex_push" and p2: "payload ex_tag_ctx = Some ex_push"
    by (simp_all add: ex_push_ctx_def ex_tag_ctx_def)
  have r1: "ref ex_push_ctx = ''refs/heads/'' @ ''main''"
    and r2: "ref ex_tag_ctx = ''refs/tags/'' @ ''v1.0''"
    by (simp_all add: ex_push_ctx_def ex_tag_ctx_def)
  show ?thesis
    using a p1 p2 r1 r2
      createBuildOptions_strips_ref_namespace
        [OF a(1) a(2) a(3) p1 a(4) a(5), of "''main''" exact_url_match "[]" None "''v1.0''"]
      createBuildOptions_strips_ref_namespace
        [OF a(1) a(2) a(3) p2 a(4) a(5), of "''main''" exact_url_match "[]" None "''v1.0''"]
    by simp
qed

text \<open>
  The condition on the deletion is needed. A push that deletes the branch \<^verbatim>\<open>main\<close> has
  the ref \<^verbatim>\<open>refs/heads/main\<close> and the deleted flag: the guard of lines 104 to 107 returns
  before the ref is read, and the options that come back have no \<open>branch\<close>.
\<close>

theorem createBuildOptions_strips_ref_namespace_counterexample:
  "accepted ex_inputs \<and> branch_override ex_inputs = [] \<and> commit_override ex_inputs = [] \<and>
   payload ex_deleted_main_ctx = Some ex_deleted \<and> pull_request ex_deleted = None \<and>
   deleted ex_deleted \<and>
   ref ex_deleted_main_ctx = ''refs/heads/main'' \<and>
   fst (createBuildOptions exact_url_match ex_inputs ex_deleted_main_ctx [] None) ''branch'' =
     None \<and>
   fst (createBuildOptions exact_url_match ex_inputs ex_deleted_main_ctx [] None) ''branch'' \<noteq>
     Some (Str ''main'')"
  by (simp add: createBuildOptions_def finishBuildOptions_def transformBasicEvent_def
      prepareEnvironmentVariables_def accepted_def ex_deleted_main_ctx_def ex_defs Let_def)

text \<open>
  C10. When the payload does not delete its ref, the result of the base-event transform
  has \<open>commit_messages\<close> and \<open>commit_paths\<close> as lists; both are empty when the ref is not
  under \<^verbatim>\<open>refs/heads/\<close>. Its \<open>commit_message\<close> is the message of the head commit, and
  \<open>undefined\<close> when the payload has no head commit. No failure is reported.
\<close>

theorem transformBasicEvent_commit_lists:
  assumes "\<not> deleted p"
  shows "(\<exists>ms. fst (transformBasicEvent ctx p) ''commit_messages'' = Some (StrList ms)) \<and>
         (\<exists>ps. fst (transformBasicEvent ctx p) ''commit_paths'' = Some (Paths ps)) \<and>
         (\<not> startsWith (ref ctx) ''refs/heads/'' \<longrightarrow>
            fst (transformBasicEvent ctx p) ''commit_messages'' = Some (StrList []) \<and>
            fst (transformBasicEvent ctx p) ''commit_paths'' = Some (Paths [])) \<and>
         get (fst (transformBasicEvent ctx p)) ''commit_message'' =
           (case head_commit p of None \<Rightarrow> Undefined | Some c \<Rightarrow> Str (message c)) \<and>
         snd (transformBasicEvent ctx p) = []"
  using assms
  by (simp add: transformBasicEvent_def Let_def get_def strOpt_def split: option.splits)

theorem transformBasicEvent_commit_lists_witness:
  "\<not> deleted ex_push \<and> \<not> startsWith (ref ex_tag_ctx) ''refs/heads/'' \<and>
   fst (transformBasicEvent ex_tag_ctx ex_push) ''commit_messages'' = Some (StrList []) \<and>
   fst (transformBasicEvent ex_tag_ctx ex_push) ''commit_paths'' = Some (Paths []) \<and>
   get (fst (transformBasicEvent ex_tag_ctx ex_push)) ''commit_message'' = Str ''fix typo''"
proof -
  have d: "\<not> deleted ex_push"
    by (simp add: ex_push_def)
  have r: "\<not> startsWith (ref ex_tag_ctx) ''refs/heads/''"
    by (simp add: ex_tag_ctx_def startsWith_def)
  have h: "head_commit ex_push = Some ex_commit2" "message ex_commit2 = ''fix typo''"
    by (simp_all add: ex_push_def ex_commit2_def)
  show ?thesis
    using d r transformBasicEvent_commit_lists [OF d, of ex_tag_ctx]
    by (simp add: h)
qed

subsection \<open>Failures reported inside a transform\<close>

text \<open>
  C1. A push that deletes its ref, with a workflow given and no override: the base-event
  transform reports the failure and returns an empty object, and \<open>createBuildOptions\<close>
  goes on with it. The returned options are not empty: they hold the workflow, the status
  flag and the environment entries, and the options are still printed.
\<close>

theorem createBuildOptions_deleted_event_returns_options:
  \<open>createBuildOptions exact_url_match ex_inputs ex_deleted_ctx [] None =
     ([''workflow_id'' \<mapsto> Str ''primary'', ''pipeline_id'' \<mapsto> Undefined,
       ''skip_git_status_report'' \<mapsto> Bool False, ''environments'' \<mapsto> Envs []],
      [Info ''Process "push" event'',
       SetFailed ''this is a 'Deleted' event, no build can be started'',
       InfoOptions Map.empty])\<close>
  by (simp add: createBuildOptions_def finishBuildOptions_def transformBasicEvent_def
      prepareEnvironmentVariables_def ex_defs Let_def)

theorem createBuildOptions_deleted_event_returns_options_witness:
  "deleted ex_deleted \<and>
   fst (createBuildOptions exact_url_match ex_inputs ex_deleted_ctx [] None) ''workflow_id'' =
     Some (Str ''primary'') \<and>
   fst (createBuildOptions exact_url_match ex_inputs ex_deleted_ctx [] None) \<noteq> Map.empty"
  using createBuildOptions_deleted_event_returns_options
  by (simp add: ex_deleted_def)

text \<open>
  The same on the pull-request path: for a draft pull request that is not mergeable the
  draft entry is still appended and the options are returned.
\<close>

lemma createBuildOptions_unmergeable_returns_options:
  \<open>createBuildOptions exact_url_match ex_inputs
     (ex_pr_ctx (ex_pr\<lparr>mergeable := Some False\<rparr>)) [] None =
     ([''workflow_id'' \<mapsto> Str ''primary'', ''pipeline_id'' \<mapsto> Undefined,
       ''skip_git_status_report'' \<mapsto> Bool False,
       ''environments'' \<mapsto>
          Envs [\<lparr>mapped_to = ''GITHUB_PR_IS_DRAFT'', env_value = ''true'', is_expand = False\<rparr>]],
      [Info ''Process "pull_request" event'',
       SetFailed ''Pull Request is not mergeable'',
       InfoOptions Map.empty])\<close>
  by (simp add: createBuildOptions_def finishBuildOptions_def transformBasicEvent_def
      transformPullRequestEvent_def prepareEnvironmentVariables_def ex_defs Let_def)

subsection \<open>The pull-request transform\<close>

lemma transformPullRequestEvent_merge_branches:
  "mergeable pr \<noteq> Some False \<Longrightarrow>
   fst (transformPullRequestEvent pr) ''pull_request_unverified_merge_branch'' =
     Some (Str (''pull/'' @ string_of_nat (number pr) @ ''/merge'')) \<and>
   fst (transformPullRequestEvent pr) ''pull_request_merge_branch'' =
     (if mergeable pr = None then None
      else Some (Str (''pull/'' @ string_of_nat (number pr) @ ''/merge'')))"
  by (simp add: transformPullRequestEvent_def Let_def map_add_def get_def del: string_of_nat.simps)

lemma transformPullRequestEvent_unmergeable:
  "mergeable pr = Some False \<Longrightarrow>
   transformPullRequestEvent pr = (Map.empty, [SetFailed ''Pull Request is not mergeable''])"
  by (simp add: transformPullRequestEvent_def Let_def)

lemma snd_createBuildOptions_pull_request:
  \<open>accepted inp \<Longrightarrow> branch_override inp = [] \<Longrightarrow> commit_override inp = [] \<Longrightarrow>
   payload ctx = Some p \<Longrightarrow> pull_request p = Some pr \<Longrightarrow>
   set (snd (transformPullRequestEvent pr)) \<subseteq>
   set (snd (createBuildOptions sameRepo inp ctx penv appDetails))\<close>
  by (auto simp add: createBuildOptions_def accepted_def Let_def
      split: option.splits prod.splits)

text \<open>
  The two merge branches. For a pull-request event with accepted inputs and no override:
  unless \<open>mergeable\<close> is \<open>false\<close>, the returned options have
  \<open>pull_request_unverified_merge_branch\<close> equal to \<^verbatim>\<open>pull/<number>/merge\<close>, and
  \<open>pull_request_merge_branch\<close> is set exactly when \<open>mergeable\<close> is not \<open>null\<close>. When
  \<open>mergeable\<close> is \<open>false\<close>, the failure \<^verbatim>\<open>Pull Request is not mergeable\<close> is reported
  and neither field is in the options.
\<close>

lemma createBuildOptions_merge_branches:
  assumes "accepted inp"
    and "branch_override inp = []" and "commit_override inp = []"
    and "payload ctx = Some p" and "pull_request p = Some pr"
  shows "(mergeable pr \<noteq> Some False \<longrightarrow>
            fst (createBuildOptions sameRepo inp ctx penv appDetails)
              ''pull_request_unverified_merge_branch'' =
              Some (Str (''pull/'' @ string_of_nat (number pr) @ ''/merge'')) \<and>
            (get (fst (createBuildOptions sameRepo inp ctx penv appDetails))
               ''pull_request_merge_branch'' \<noteq> Undefined) = (mergeable pr \<noteq> None)) \<and>
         (mergeable pr = Some False \<longrightarrow>
            SetFailed ''Pull Request is not mergeable'' \<in>
              set (snd (createBuildOptions sameRepo inp ctx penv appDetails)) \<and>
            fst (createBuildOptions sameRepo inp ctx penv appDetails)
              ''pull_request_unverified_merge_branch'' = None \<and>
            fst (createBuildOptions sameRepo inp ctx penv appDetails)
              ''pull_request_merge_branch'' = None)"
proof -
  have out: "fst (createBuildOptions sameRepo inp ctx penv appDetails) k =
             fst (transformPullRequestEvent pr) k"
    if "k = ''pull_request_unverified_merge_branch'' \<or> k = ''pull_request_merge_branch''" for k
    using that assms
    by (auto simp add: createBuildOptions_pull_request finishBuildOptions_other)
  have log: "set (snd (transformPullRequestEvent pr)) \<subseteq>
             set (snd (createBuildOptions sameRepo inp ctx penv appDetails))"
    using assms by (rule snd_createBuildOptions_pull_request)
  show ?thesis
  proof (cases "mergeable pr = Some False")
    case True
    then show ?thesis
      using log by (simp add: out get_def transformPullRequestEvent_unmergeable)
  next
    case False
    then show ?thesis
      using transformPullRequestEvent_merge_branches [OF False]
      by (simp add: out get_def del: string_of_nat.simps)
  qed
qed

lemma createBuildOptions_merge_branches_example:
  "accepted ex_inputs \<and> branch_override ex_inputs = [] \<and> commit_override ex_inputs = [] \<and>
   mergeable ex_pr = Some True \<and>
   fst (createBuildOptions exact_url_match ex_inputs (ex_pr_ctx ex_pr) [] None)
     ''pull_request_unverified_merge_branch'' = Some (Str ''pull/42/merge'') \<and>
   get (fst (createBuildOptions exact_url_match ex_inputs (ex_pr_ctx ex_pr) [] None))
     ''pull_request_merge_branch'' \<noteq> Undefined \<and>
   fst (createBuildOptions exact_url_match ex_inputs (ex_pr_ctx (ex_pr\<lparr>mergeable := None\<rparr>)) [] None)
     ''pull_request_unverified_merge_branch'' = Some (Str ''pull/42/merge'') \<and>
   get (fst (createBuildOptions exact_url_match ex_inputs
               (ex_pr_ctx (ex_pr\<lparr>mergeable := None\<rparr>)) [] None))
     ''pull_request_merge_branch'' = Undefined \<and>
   SetFailed ''Pull Request is not mergeable'' \<in>
     set (snd (createBuildOptions exact_url_match ex_inputs
                 (ex_pr_ctx (ex_pr\<lparr>mergeable := Some False\<rparr>)) [] None))"
proof -
  have a: "accepted ex_inputs" "branch_override ex_inputs = []" "commit_override ex_inputs = []"
    by (simp_all add: accepted_def ex_inputs_def)
  have p: "payload (ex_pr_ctx pr) = Some (ex_pr_payload pr)"
    "pull_request (ex_pr_payload pr) = Some pr" for pr
    by (simp_all add: ex_pr_ctx_def ex_pr_payload_def)
  have m: "mergeable ex_pr = Some True" "number ex_pr = 42"
    by (simp_all add: ex_pr_def)
  have n: "string_of_nat 42 = ''42''"
    by simp
  show ?thesis
    using a m
      createBuildOptions_merge_branches
        [OF a p, of ex_pr exact_url_match "[]" None]
      createBuildOptions_merge_branches
        [OF a p, of "ex_pr\<lparr>mergeable := None\<rparr>" exact_url_match "[]" None]
      createBuildOptions_merge_branches
        [OF a p, of "ex_pr\<lparr>mergeable := Some False\<rparr>" exact_url_match "[]" None]
    by (simp add: n del: string_of_nat.simps)
qed

text \<open>
  C2. On a pull request whose \<open>mergeable\<close> is \<open>false\<close>, with a workflow given and no
  override, the pull-request transform reports the failure and returns an empty object,
  and \<open>createBuildOptions\<close> goes on with it: resolution does not end at the failure. What
  comes back is an options object with the workflow, the status flag and the environment
  entries, and the options are still printed.
\<close>

theorem createBuildOptions_unmergeable_pull_request_continues:
  \<open>createBuildOptions exact_url_match ex_inputs (ex_pr_ctx ex_unmergeable) [] None =
     ([''workflow_id'' \<mapsto> Str ''primary'', ''pipeline_id'' \<mapsto> Undefined,
       ''skip_git_status_report'' \<mapsto> Bool False, ''environments'' \<mapsto> Envs []],
      [Info ''Process "pull_request" event'',
       SetFailed ''Pull Request is not mergeable'',
       InfoOptions Map.empty])\<close>
  by (simp add: createBuildOptions_def finishBuildOptions_def transformBasicEvent_def
      transformPullRequestEvent_def prepareEnvironmentVariables_def ex_unmergeable_def
      ex_defs Let_def)

theorem createBuildOptions_unmergeable_pull_request_continues_witness:
  "mergeable ex_unmergeable = Some False \<and>
   fst (createBuildOptions exact_url_match ex_inputs (ex_pr_ctx ex_unmergeable) [] None)
     ''workflow_id'' = Some (Str ''primary'') \<and>
   fst (createBuildOptions exact_url_match ex_inputs (ex_pr_ctx ex_unmergeable) [] None) \<noteq>
     Map.empty"
  using createBuildOptions_unmergeable_pull_request_continues
  by (simp add: ex_unmergeable_def ex_pr_def)

subsection \<open>Workflow and pipeline\<close>

lemma createBuildOptions_rejected_log:
  "\<not> accepted inp \<Longrightarrow> \<exists>msg. snd (createBuildOptions sameRepo inp ctx penv appDetails) = [SetFailed msg]"
  by (auto simp add: createBuildOptions_def accepted_def Let_def)

lemma createBuildOptions_no_payload_log:
  \<open>accepted inp \<Longrightarrow> branch_override inp = [] \<Longrightarrow> commit_override inp = [] \<Longrightarrow>
   payload ctx = None \<Longrightarrow>
   SetFailed ''No payload found in the context.'' \<in>
     set (snd (createBuildOptions sameRepo inp ctx penv appDetails))\<close>
  by (simp add: createBuildOptions_def accepted_def Let_def)

lemma createBuildOptions_accepted_cases:
  assumes "accepted inp"
  shows \<open>(fst (createBuildOptions sameRepo inp ctx penv appDetails) = Map.empty \<and>
          SetFailed ''No payload found in the context.'' \<in>
            set (snd (createBuildOptions sameRepo inp ctx penv appDetails))) \<or>
         (\<exists>opts envs. fst (createBuildOptions sameRepo inp ctx penv appDetails) =
            fst (finishBuildOptions sameRepo inp appDetails opts envs))\<close>
proof (cases "branch_override inp \<noteq> [] \<or> commit_override inp \<noteq> []")
  case True
  show ?thesis
    using createBuildOptions_override [OF assms True, of sameRepo ctx penv appDetails]
    by blast
next
  case False
  then have no: "branch_override inp = []" "commit_override inp = []"
    by simp_all
  show ?thesis
  proof (cases "payload ctx")
    case None
    show ?thesis
      using createBuildOptions_no_payload [OF assms no None, of sameRepo penv appDetails]
        createBuildOptions_no_payload_log [OF assms no None, of sameRepo penv appDetails]
      by blast
  next
    case (Some p)
    show ?thesis
    proof (cases "pull_request p")
      case None
      show ?thesis
        using createBuildOptions_basic [OF assms no Some None, of sameRepo penv appDetails]
        by blast
    next
      case (Some pr)
      show ?thesis
        using createBuildOptions_pull_request
          [OF assms no \<open>payload ctx = Some p\<close> Some, of sameRepo penv appDetails]
        by blast
    qed
  qed
qed

lemma finishBuildOptions_workflow_pipeline:
  "get (fst (finishBuildOptions sameRepo inp appDetails opts envs)) ''workflow_id'' =
     (if bitrise_workflow inp \<noteq> [] then Str (bitrise_workflow inp) else Undefined) \<and>
   get (fst (finishBuildOptions sameRepo inp appDetails opts envs)) ''pipeline_id'' =
     (if bitrise_pipeline inp \<noteq> [] then Str (bitrise_pipeline inp) else Undefined)"
  by (simp add: finishBuildOptions_def get_def)

text \<open>
  C7. With both a workflow and a pipeline, or with neither, \<open>createBuildOptions\<close> returns
  the empty object and its only report is the failure: nothing was resolved before it.
  Whenever it reports no failure, and whenever the object it returns is not empty, exactly
  one of \<open>workflow_id\<close> and \<open>pipeline_id\<close> is set in that object.
\<close>

theorem createBuildOptions_workflow_xor_pipeline:
  "((bitrise_workflow inp = [] \<and> bitrise_pipeline inp = []) \<or>
    (bitrise_workflow inp \<noteq> [] \<and> bitrise_pipeline inp \<noteq> []) \<longrightarrow>
      fst (createBuildOptions sameRepo inp ctx penv appDetails) = Map.empty \<and>
      (\<exists>msg. snd (createBuildOptions sameRepo inp ctx penv appDetails) = [SetFailed msg])) \<and>
   ((\<forall>msg. SetFailed msg \<notin> set (snd (createBuildOptions sameRepo inp ctx penv appDetails))) \<or>
    fst (createBuildOptions sameRepo inp ctx penv appDetails) \<noteq> Map.empty \<longrightarrow>
      (get (fst (createBuildOptions sameRepo inp ctx penv appDetails)) ''workflow_id'' \<noteq> Undefined) \<noteq>
      (get (fst (createBuildOptions sameRepo inp ctx penv appDetails)) ''pipeline_id'' \<noteq> Undefined))"
proof (cases "accepted inp")
  case False
  then show ?thesis
    using createBuildOptions_rejected [OF False, of sameRepo ctx penv appDetails]
      createBuildOptions_rejected_log [OF False, of sameRepo ctx penv appDetails]
    by auto
next
  case True
  then have one: "(bitrise_workflow inp \<noteq> []) \<noteq> (bitrise_pipeline inp \<noteq> [])"
    by (auto simp add: accepted_def)
  have "(get (fst (createBuildOptions sameRepo inp ctx penv appDetails)) ''workflow_id'' \<noteq> Undefined) \<noteq>
      (get (fst (createBuildOptions sameRepo inp ctx penv appDetails)) ''pipeline_id'' \<noteq> Undefined)"
    if "(\<forall>msg. SetFailed msg \<notin> set (snd (createBuildOptions sameRepo inp ctx penv appDetails))) \<or>
        fst (createBuildOptions sameRepo inp ctx penv appDetails) \<noteq> Map.empty"
  proof -
    from createBuildOptions_accepted_cases [OF True, of sameRepo ctx penv appDetails] that
    obtain opts envs where "fst (createBuildOptions sameRepo inp ctx penv appDetails) =
      fst (finishBuildOptions sameRepo inp appDetails opts envs)"
      by auto
    then show ?thesis
      using one by (simp add: finishBuildOptions_workflow_pipeline)
  qed
  moreover have "\<not> ((bitrise_workflow inp = [] \<and> bitrise_pipeline inp = []) \<or>
    (bitrise_workflow inp \<noteq> [] \<and> bitrise_pipeline inp \<noteq> []))"
    using True by (auto simp add: accepted_def)
  ultimately show ?thesis
    by blast
qed

theorem createBuildOptions_workflow_xor_pipeline_witness:
  "bitrise_workflow ex_both \<noteq> [] \<and> bitrise_pipeline ex_both \<noteq> [] \<and>
   fst (createBuildOptions exact_url_match ex_both ex_push_ctx [] None) = Map.empty \<and>
   (\<exists>msg. snd (createBuildOptions exact_url_match ex_both ex_push_ctx [] None) = [SetFailed msg]) \<and>
   fst (createBuildOptions exact_url_match ex_inputs ex_push_ctx [] None) \<noteq> Map.empty \<and>
   get (fst (createBuildOptions exact_url_match ex_inputs ex_push_ctx [] None)) ''workflow_id'' \<noteq> Undefined \<and>
   get (fst (createBuildOptions exact_url_match ex_inputs ex_push_ctx [] None)) ''pipeline_id'' = Undefined"
proof -
  have b: "bitrise_workflow ex_both \<noteq> []" "bitrise_pipeline ex_both \<noteq> []"
    by (simp_all add: ex_both_def ex_inputs_def)
  have w: "fst (createBuildOptions exact_url_match ex_inputs ex_push_ctx [] None) ''workflow_id'' =
           Some (Str ''primary'')"
    by (simp add: createBuildOptions_def finishBuildOptions_def ex_defs Let_def)
  then have ne: "fst (createBuildOptions exact_url_match ex_inputs ex_push_ctx [] None) \<noteq> Map.empty"
    by auto
  show ?thesis
    using b w ne
      createBuildOptions_workflow_xor_pipeline [of ex_both exact_url_match ex_push_ctx "[]" None]
      createBuildOptions_workflow_xor_pipeline [of ex_inputs exact_url_match ex_push_ctx "[]" None]
    by (simp add: get_def)
qed

subsection \<open>Overrides take precedence over the pull request\<close>

lemma transformBasicEvent_other_keys:
  "k \<noteq> ''branch'' \<Longrightarrow> k \<noteq> ''tag'' \<Longrightarrow> k \<noteq> ''commit_hash'' \<Longrightarrow> k \<noteq> ''commit_message'' \<Longrightarrow>
   k \<noteq> ''commit_messages'' \<Longrightarrow> k \<noteq> ''commit_paths'' \<Longrightarrow> k \<noteq> ''base_repository_url'' \<Longrightarrow>
   fst (transformBasicEvent ctx p) k = None"
  by (simp add: transformBasicEvent_def Let_def map_add_def)

lemma overrideBranchOptions_other_keys:
  "k \<noteq> ''branch'' \<Longrightarrow> k \<noteq> ''tag'' \<Longrightarrow> k \<noteq> ''base_repository_url'' \<Longrightarrow>
   overrideBranchOptions appDetails branchOverride k = None"
  by (simp add: overrideBranchOptions_def Let_def map_add_def split: option.splits)

lemma processOverrides_other_keys:
  assumes "k \<noteq> ''branch''" "k \<noteq> ''tag''" "k \<noteq> ''commit_hash''" "k \<noteq> ''commit_message''"
    "k \<noteq> ''commit_messages''" "k \<noteq> ''commit_paths''" "k \<noteq> ''base_repository_url''"
  shows "fst (processOverrides sameRepo appDetails (defaultOptions ctx) branchOverride
                commitOverride) k = None"
proof -
  have d: "m k = None" if "defaultOptions ctx = Some m" for m
    using that assms transformBasicEvent_other_keys [of k ctx]
    by (auto simp add: defaultOptions_def)
  have b: "overrideBranchOptions appDetails branchOverride k = None"
    using assms by (simp add: overrideBranchOptions_other_keys)
  have u: "useDefaultOptions sameRepo appDetails (defaultOptions ctx) branchOverride
             (overrideBranchOptions appDetails branchOverride) k = None"
    using b d
    by (auto simp add: useDefaultOptions_def map_add_def split: option.splits)
  show ?thesis
    using u assms by (simp add: processOverrides_def narrowToCommit_def)
qed

text \<open>
  C6. When a branch override or a commit override is given, none of the fields that only the
  pull-request transform writes is in the returned options, whatever the event. When the
  inputs are accepted, the returned options are those of the override transform, completed
  by lines 94 to 100, and \<open>environments\<close> is the list of the environment passthrough
  alone: the draft entry is not appended.
\<close>

theorem createBuildOptions_override_excludes_pull_request:
  assumes "branch_override inp \<noteq> [] \<or> commit_override inp \<noteq> []"
  shows "fst (createBuildOptions sameRepo inp ctx penv appDetails) ''pull_request_id'' = None \<and>
         fst (createBuildOptions sameRepo inp ctx penv appDetails)
           ''pull_request_unverified_merge_branch'' = None \<and>
         fst (createBuildOptions sameRepo inp ctx penv appDetails)
           ''pull_request_merge_branch'' = None \<and>
         fst (createBuildOptions sameRepo inp ctx penv appDetails)
           ''pull_request_head_branch'' = None \<and>
         fst (createBuildOptions sameRepo inp ctx penv appDetails)
           ''pull_request_ready_state'' = None \<and>
         fst (createBuildOptions sameRepo inp ctx penv appDetails)
           ''pull_request_repository_url'' = None \<and>
         fst (createBuildOptions sameRepo inp ctx penv appDetails)
           ''pull_request_author'' = None \<and>
         fst (createBuildOptions sameRepo inp ctx penv appDetails) ''head_repository_url'' = None \<and>
         fst (createBuildOptions sameRepo inp ctx penv appDetails) ''diff_url'' = None \<and>
         fst (createBuildOptions sameRepo inp ctx penv appDetails) ''branch_repo_owner'' = None \<and>
         fst (createBuildOptions sameRepo inp ctx penv appDetails) ''branch_dest'' = None \<and>
         fst (createBuildOptions sameRepo inp ctx penv appDetails)
           ''branch_dest_repo_owner'' = None \<and>
         (accepted inp \<longrightarrow>
            fst (createBuildOptions sameRepo inp ctx penv appDetails) =
              fst (finishBuildOptions sameRepo inp appDetails
                    (fst (processOverrides sameRepo appDetails (defaultOptions ctx)
                            (branch_override inp) (commit_override inp)))
                    (prepareEnvironmentVariables (env_vars_for_bitrise inp) penv)) \<and>
            fst (createBuildOptions sameRepo inp ctx penv appDetails) ''environments'' =
              Some (Envs (prepareEnvironmentVariables (env_vars_for_bitrise inp) penv)))"
proof (cases "accepted inp")
  case False
  then show ?thesis
    by (simp add: createBuildOptions_rejected)
next
  case True
  have out: "fst (createBuildOptions sameRepo inp ctx penv appDetails) =
     fst (finishBuildOptions sameRepo inp appDetails
            (fst (processOverrides sameRepo appDetails (defaultOptions ctx)
                    (branch_override inp) (commit_override inp)))
            (prepareEnvironmentVariables (env_vars_for_bitrise inp) penv))"
    using True assms by (rule createBuildOptions_override)
  have env: "fst (finishBuildOptions sameRepo inp appDetails opts envs) ''environments'' =
     Some (Envs envs)" for opts envs
    by (simp add: finishBuildOptions_def)
  show ?thesis
    unfolding out
    by (simp add: finishBuildOptions_other processOverrides_other_keys env)
qed

theorem createBuildOptions_override_excludes_pull_request_witness:
  "branch_override ex_override_inputs = ''release'' \<and> accepted ex_override_inputs \<and>
   draft ex_pr \<and> pull_request (ex_pr_payload ex_pr) = Some ex_pr \<and>
   fst (createBuildOptions exact_url_match ex_override_inputs (ex_pr_ctx ex_pr) [] None)
     ''pull_request_id'' = None \<and>
   fst (createBuildOptions exact_url_match ex_override_inputs (ex_pr_ctx ex_pr) [] None)
     ''pull_request_merge_branch'' = None \<and>
   fst (createBuildOptions exact_url_match ex_override_inputs (ex_pr_ctx ex_pr) [] None)
     ''environments'' = Some (Envs [])"
proof -
  have b: "branch_override ex_override_inputs = ''release''"
    and a: "accepted ex_override_inputs"
    and e: "prepareEnvironmentVariables (env_vars_for_bitrise ex_override_inputs) [] = []"
    by (simp_all add: ex_override_inputs_def ex_inputs_def accepted_def
        prepareEnvironmentVariables_def)
  have o: "branch_override ex_override_inputs \<noteq> [] \<or> commit_override ex_override_inputs \<noteq> []"
    by (simp add: b)
  have d: "draft ex_pr" "pull_request (ex_pr_payload ex_pr) = Some ex_pr"
    by (simp_all add: ex_pr_def ex_pr_payload_def)
  have "fst (createBuildOptions exact_url_match ex_override_inputs (ex_pr_ctx ex_pr) [] None)
          ''pull_request_id'' = None \<and>
        fst (createBuildOptions exact_url_match ex_override_inputs (ex_pr_ctx ex_pr) [] None)
          ''pull_request_merge_branch'' = None \<and>
        fst (createBuildOptions exact_url_match ex_override_inputs (ex_pr_ctx ex_pr) [] None)
          ''environments'' =
          Some (Envs (prepareEnvironmentVariables (env_vars_for_bitrise ex_override_inputs) []))"
    using a createBuildOptions_override_excludes_pull_request
        [OF o, of exact_url_match "ex_pr_ctx ex_pr" "[]" None]
    by blast
  then show ?thesis
    using b a d by (simp add: e)
qed

subsection \<open>Branch and tag exclude each other\<close>

lemma transformBasicEvent_branch_or_tag:
  "fst (transformBasicEvent ctx p) ''branch'' = None \<or>
   fst (transformBasicEvent ctx p) ''tag'' = None"
  by (simp add: transformBasicEvent_def Let_def map_add_def)

lemma transformPullRequestEvent_no_tag:
  "fst (transformPullRequestEvent pr) ''tag'' = None"
  by (simp add: transformPullRequestEvent_def Let_def map_add_def)

lemma overrideBranchOptions_branch_or_tag:
  "overrideBranchOptions appDetails branchOverride ''branch'' = None \<or>
   overrideBranchOptions appDetails branchOverride ''tag'' = None"
  by (simp add: overrideBranchOptions_def Let_def map_add_def split: option.splits)

lemma useDefaultOptions_cases:
  "useDefaultOptions sameRepo appDetails d branchOverride bo = bo \<or>
   (\<exists>m. d = Some m \<and> useDefaultOptions sameRepo appDetails d branchOverride bo = bo ++ m \<and>
        ((truthy (get bo ''branch'') \<and> get bo ''branch'' = get m ''branch'') \<or>
         (truthy (get bo ''tag'') \<and> get bo ''tag'' = get m ''tag'')))"
  by (cases d; cases appDetails) (simp_all add: useDefaultOptions_def getOpt_def)

lemma truthy_get:
  "truthy (get m k) \<Longrightarrow> m k \<noteq> None"
  by (cases "m k") (simp_all add: get_def)

lemma get_None: "m k = None \<Longrightarrow> get m k = Undefined"
  by (simp add: get_def)

lemma useDefaultOptions_branch_or_tag:
  assumes bo: "bo ''branch'' = None \<or> bo ''tag'' = None"
    and d: "\<And>m. d = Some m \<Longrightarrow> m ''branch'' = None \<or> m ''tag'' = None"
  shows "get (useDefaultOptions sameRepo appDetails d branchOverride bo) ''branch'' = Undefined \<or>
         get (useDefaultOptions sameRepo appDetails d branchOverride bo) ''tag'' = Undefined"
proof -
  from useDefaultOptions_cases [of sameRepo appDetails d branchOverride bo]
  consider (keep) "useDefaultOptions sameRepo appDetails d branchOverride bo = bo"
    | (branch) m where "d = Some m"
        "useDefaultOptions sameRepo appDetails d branchOverride bo = bo ++ m"
        "truthy (get bo ''branch'')" "get bo ''branch'' = get m ''branch''"
    | (tag) m where "d = Some m"
        "useDefaultOptions sameRepo appDetails d branchOverride bo = bo ++ m"
        "truthy (get bo ''tag'')" "get bo ''tag'' = get m ''tag''"
    by blast
  then show ?thesis
  proof cases
    case keep
    then show ?thesis
      using bo by (auto simp add: get_None)
  next
    case branch
    then have "truthy (get bo ''branch'')" and "truthy (get m ''branch'')"
      by simp_all
    then have "bo ''branch'' \<noteq> None" and "m ''branch'' \<noteq> None"
      by (simp_all add: truthy_get)
    with bo d [OF branch(1)] have "bo ''tag'' = None" "m ''tag'' = None"
      by auto
    then have "(bo ++ m) ''tag'' = None"
      by (simp add: map_add_def)
    then show ?thesis
      by (simp add: branch(2) get_None)
  next
    case tag
    then have "truthy (get bo ''tag'')" and "truthy (get m ''tag'')"
      by simp_all
    then have "bo ''tag'' \<noteq> None" and "m ''tag'' \<noteq> None"
      by (simp_all add: truthy_get)
    with bo d [OF tag(1)] have "bo ''branch'' = None" "m ''branch'' = None"
      by auto
    then have "(bo ++ m) ''branch'' = None"
      by (simp add: map_add_def)
    then show ?thesis
      by (simp add: tag(2) get_None)
  qed
qed

lemma processOverrides_branch_or_tag:
  "get (fst (processOverrides sameRepo appDetails (defaultOptions ctx) branchOverride
               commitOverride)) ''branch'' = Undefined \<or>
   get (fst (processOverrides sameRepo appDetails (defaultOptions ctx) branchOverride
               commitOverride)) ''tag'' = Undefined"
proof -
  have d: "m ''branch'' = None \<or> m ''tag'' = None" if "defaultOptions ctx = Some m" for m
  proof -
    from that obtain p where "m = fst (transformBasicEvent ctx p)"
      by (auto simp add: defaultOptions_def)
    then show ?thesis
      using transformBasicEvent_branch_or_tag [of ctx p] by simp
  qed
  have n: "get (narrowToCommit dd c x) k = get x k" if "k = ''branch'' \<or> k = ''tag''"
    for dd c x k
    using that by (auto simp add: narrowToCommit_def get_def)
  have "get (useDefaultOptions sameRepo appDetails (defaultOptions ctx) branchOverride
               (overrideBranchOptions appDetails branchOverride)) ''branch'' = Undefined \<or>
        get (useDefaultOptions sameRepo appDetails (defaultOptions ctx) branchOverride
               (overrideBranchOptions appDetails branchOverride)) ''tag'' = Undefined"
    by (rule useDefaultOptions_branch_or_tag [OF overrideBranchOptions_branch_or_tag d])
  then show ?thesis
    by (simp add: processOverrides_def n)
qed

lemma finishBuildOptions_get_branch_tag:
  "k = ''branch'' \<or> k = ''tag'' \<Longrightarrow>
   get (fst (finishBuildOptions sameRepo inp appDetails opts envs)) k = get opts k"
  by (auto simp add: get_def finishBuildOptions_other)

text \<open>
  C9. Whatever the inputs, the event, the environment and the application details, the
  options \<open>createBuildOptions\<close> returns never have both \<open>branch\<close> and \<open>tag\<close> set.
\<close>

theorem createBuildOptions_not_branch_and_tag:
  "\<not> (get (fst (createBuildOptions sameRepo inp ctx penv appDetails)) ''branch'' \<noteq> Undefined \<and>
      get (fst (createBuildOptions sameRepo inp ctx penv appDetails)) ''tag'' \<noteq> Undefined)"
proof (cases "accepted inp")
  case False
  then show ?thesis
    by (simp add: createBuildOptions_rejected get_def)
next
  case True
  show ?thesis
  proof (cases "branch_override inp \<noteq> [] \<or> commit_override inp \<noteq> []")
    case ov: True
    show ?thesis
      using processOverrides_branch_or_tag
        [of sameRepo appDetails ctx "branch_override inp" "commit_override inp"]
      by (auto simp add: createBuildOptions_override [OF True ov]
          finishBuildOptions_get_branch_tag)
  next
    case False
    then have no: "branch_override inp = []" "commit_override inp = []"
      by simp_all
    show ?thesis
    proof (cases "payload ctx")
      case None
      then show ?thesis
        by (simp add: createBuildOptions_no_payload [OF True no] get_def)
    next
      case (Some p)
      show ?thesis
      proof (cases "pull_request p")
        case None
        have "get (fst (transformBasicEvent ctx p)) ''branch'' = Undefined \<or>
              get (fst (transformBasicEvent ctx p)) ''tag'' = Undefined"
          using transformBasicEvent_branch_or_tag [of ctx p]
          by (auto simp add: get_def)
        then show ?thesis
          by (auto simp add: createBuildOptions_basic [OF True no Some None]
              finishBuildOptions_get_branch_tag)
      next
        case pr: (Some pr)
        have "get (fst (transformPullRequestEvent pr)) ''tag'' = Undefined"
          by (simp add: transformPullRequestEvent_no_tag get_def)
        then show ?thesis
          by (simp add: createBuildOptions_pull_request [OF True no Some pr]
              finishBuildOptions_get_branch_tag)
      qed
    qed
  qed
qed

theorem createBuildOptions_not_branch_and_tag_witness:
  "get (fst (createBuildOptions exact_url_match ex_collapse_inputs ex_push_ctx [] (Some ex_app)))
     ''branch'' = Str ''main'' \<and>
   get (fst (createBuildOptions exact_url_match ex_collapse_inputs ex_push_ctx [] (Some ex_app)))
     ''tag'' = Undefined \<and>
   get (fst (createBuildOptions exact_url_match ex_inputs ex_tag_ctx [] None)) ''tag'' =
     Str ''v1.0'' \<and>
   get (fst (createBuildOptions exact_url_match ex_inputs ex_tag_ctx [] None)) ''branch'' =
     Undefined"
proof -
  have b: "get (fst (createBuildOptions exact_url_match ex_collapse_inputs ex_push_ctx []
                       (Some ex_app))) ''branch'' = Str ''main''"
    by (simp add: createBuildOptions_def finishBuildOptions_def processOverrides_def
        narrowToCommit_def useDefaultOptions_def overrideBranchOptions_def
        transformBasicEvent_def startsWith_def slice_def get_def getOpt_def getRepositoryURL_def
        ex_collapse_inputs_def ex_defs Let_def)
  have t: "get (fst (createBuildOptions exact_url_match ex_inputs ex_tag_ctx [] None)) ''tag'' =
           Str ''v1.0''"
    by (simp add: createBuildOptions_def finishBuildOptions_def transformBasicEvent_def
        startsWith_def slice_def get_def ex_defs Let_def)
  show ?thesis
    using b t
      createBuildOptions_not_branch_and_tag
        [of exact_url_match ex_collapse_inputs ex_push_ctx "[]" "Some ex_app"]
      createBuildOptions_not_branch_and_tag [of exact_url_match ex_inputs ex_tag_ctx "[]" None]
    by simp
qed

subsection \<open>The override transform\<close>

lemma useDefaultOptions_without_url:
  "(case appDetails of None \<Rightarrow> True | Some a \<Rightarrow> repo_url a = []) \<Longrightarrow>
   useDefaultOptions sameRepo appDetails d branchOverride bo = bo"
  by (cases appDetails) (simp_all add: useDefaultOptions_def)

lemma map_add_absorb:
  assumes "\<And>k. bo k \<noteq> None \<Longrightarrow> d k \<noteq> None"
  shows "bo ++ d = (d :: options)"
proof
  fix k
  show "(bo ++ d) k = d k"
    using assms [of k] by (cases "d k"; cases "bo k") (simp_all add: map_add_def)
qed

lemma transformBasicEvent_deleted:
  "deleted p \<Longrightarrow> fst (transformBasicEvent ctx p) = Map.empty"
  by (simp add: transformBasicEvent_def)

lemma transformBasicEvent_fixed_keys:
  "\<not> deleted p \<Longrightarrow>
   fst (transformBasicEvent ctx p) ''base_repository_url'' \<noteq> None \<and>
   fst (transformBasicEvent ctx p) ''commit_hash'' = Some (Str (sha ctx))"
  by (simp add: transformBasicEvent_def Let_def map_add_def)

lemma processOverrides_adopts_default:
  assumes d: "d = fst (transformBasicEvent ctx p)"
    and bo: "bo = overrideBranchOptions (Some a) branchOverride"
    and url: "repo_url a \<noteq> []"
    and repo: "sameRepo (repo_url a) (get d ''base_repository_url'')"
    and same: "(truthy (get bo ''branch'') \<and> get bo ''branch'' = get d ''branch'') \<or>
               (truthy (get bo ''tag'') \<and> get bo ''tag'' = get d ''tag'')"
    and commit: "commitOverride = [] \<or> commitOverride = sha ctx"
  shows "fst (processOverrides sameRepo (Some a) (Some d) branchOverride commitOverride) = d"
proof -
  have nd: "\<not> deleted p"
  proof
    assume "deleted p"
    then have "d = Map.empty"
      by (simp add: d transformBasicEvent_deleted)
    then have "get d ''branch'' = Undefined" "get d ''tag'' = Undefined"
      by (simp_all add: get_def)
    with same show False
      by auto
  qed
  have base: "d ''base_repository_url'' \<noteq> None"
    and hash: "get d ''commit_hash'' = Str (sha ctx)"
    using transformBasicEvent_fixed_keys [OF nd, of ctx] by (simp_all add: d get_def)
  have override: "branchOverride \<noteq> []"
  proof
    assume "branchOverride = []"
    then have "bo ''branch'' = None" "bo ''tag'' = None"
      by (simp_all add: bo overrideBranchOptions_def startsWith_def Let_def map_add_def)
    then have "\<not> truthy (get bo ''branch'')" "\<not> truthy (get bo ''tag'')"
      by (simp_all add: get_None)
    with same show False
      by blast
  qed
  have sub: "d k \<noteq> None" if k: "bo k \<noteq> None" for k
  proof -
    have "k = ''base_repository_url'' \<or> k = ''branch'' \<or> k = ''tag''"
    proof (rule ccontr)
      assume "\<not> (k = ''base_repository_url'' \<or> k = ''branch'' \<or> k = ''tag'')"
      then have "k \<noteq> ''branch''" "k \<noteq> ''tag''" "k \<noteq> ''base_repository_url''"
        by simp_all
      then have "bo k = None"
        unfolding bo by (rule overrideBranchOptions_other_keys)
      with k show False
        by simp
    qed
    then consider "k = ''base_repository_url''" | "k = ''branch''" | "k = ''tag''"
      by (elim disjE)
    then show ?thesis
    proof cases
      case 1
      then show ?thesis using base by simp
    next
      case 2
      with k overrideBranchOptions_branch_or_tag [of "Some a" branchOverride]
      have "bo ''tag'' = None"
        unfolding bo by auto
      then have "\<not> truthy (get bo ''tag'')"
        by (simp add: get_None)
      with same have "truthy (get d ''branch'')"
        by auto
      then show ?thesis
        unfolding 2 by (rule truthy_get)
    next
      case 3
      with k overrideBranchOptions_branch_or_tag [of "Some a" branchOverride]
      have "bo ''branch'' = None"
        unfolding bo by auto
      then have "\<not> truthy (get bo ''branch'')"
        by (simp add: get_None)
      with same have "truthy (get d ''tag'')"
        by auto
      then show ?thesis
        unfolding 3 by (rule truthy_get)
    qed
  qed
  have "useDefaultOptions sameRepo (Some a) (Some d) branchOverride bo = bo ++ d"
    using url repo same override by (simp add: useDefaultOptions_def getOpt_def)
  also have "\<dots> = d"
    using sub by (rule map_add_absorb)
  finally have "useDefaultOptions sameRepo (Some a) (Some d) branchOverride bo = d" .
  moreover have "narrowToCommit (Some d) commitOverride d = d"
    using commit hash by (auto simp add: narrowToCommit_def getOpt_def)
  ultimately show ?thesis
    by (simp add: processOverrides_def bo [symmetric])
qed

lemma ex_push_options:
  "fst (transformBasicEvent ex_push_ctx ex_push) =
     [''branch'' \<mapsto> Str ''main'',
      ''commit_hash'' \<mapsto> Str ''abc123'',
      ''commit_message'' \<mapsto> Str ''fix typo'',
      ''commit_messages'' \<mapsto> StrList [''add login'', ''fix typo''],
      ''commit_paths'' \<mapsto>
         Paths [\<lparr>added = [''login.ts''], removed = [], modified = []\<rparr>,
                \<lparr>added = [], removed = [''old.ts''], modified = [''README.md'']\<rparr>],
      ''base_repository_url'' \<mapsto> Str ''https://github.com/acme/app.git'']"
  by (simp add: transformBasicEvent_def startsWith_def slice_def strOpt_def
      getRepositoryURL_def Let_def ex_defs)

lemma ex_override_main:
  "overrideBranchOptions (Some ex_app) ''refs/heads/main'' =
     [''base_repository_url'' \<mapsto> Str ''https://github.com/acme/app.git'',
      ''branch'' \<mapsto> Str ''main'']"
  "overrideBranchOptions None ''refs/heads/main'' = [''branch'' \<mapsto> Str ''main'']"
  by (simp_all add: overrideBranchOptions_def startsWith_def slice_def ex_app_def)

text \<open>
  C3, as amended. When the application's repository URL is present and names the
  repository of the base event by the comparison, the override resolves to the same
  non-empty branch name, or the same non-empty tag name, as the base-event transform
  produced, and the commit override is absent or equal to the commit of the event, the
  override transform returns the very result of the base-event transform. When the
  application details are absent or hold no repository URL, the default options are never
  adopted: the override transform returns the options of the override alone, after the
  step of lines 238 to 245 on them.

  In \<open>BitriseAppDetails\<close> a repository URL that is not given is the empty string: the
  source tests the URL for truth.
\<close>

theorem processOverrides_adopts_base_event:
  "(repo_url a \<noteq> [] \<and>
    sameRepo (repo_url a) (get (fst (transformBasicEvent ctx p)) ''base_repository_url'') \<and>
    ((truthy (get (overrideBranchOptions (Some a) branchOverride) ''branch'') \<and>
      get (overrideBranchOptions (Some a) branchOverride) ''branch'' =
        get (fst (transformBasicEvent ctx p)) ''branch'') \<or>
     (truthy (get (overrideBranchOptions (Some a) branchOverride) ''tag'') \<and>
      get (overrideBranchOptions (Some a) branchOverride) ''tag'' =
        get (fst (transformBasicEvent ctx p)) ''tag'')) \<and>
    (commitOverride = [] \<or> commitOverride = sha ctx) \<longrightarrow>
      fst (processOverrides sameRepo (Some a) (Some (fst (transformBasicEvent ctx p)))
             branchOverride commitOverride) =
        fst (transformBasicEvent ctx p)) \<and>
   ((case appDetails of None \<Rightarrow> True | Some a' \<Rightarrow> repo_url a' = []) \<longrightarrow>
      fst (processOverrides sameRepo appDetails d branchOverride commitOverride) =
        narrowToCommit d commitOverride (overrideBranchOptions appDetails branchOverride))"
proof (intro conjI impI)
  assume "repo_url a \<noteq> [] \<and>
    sameRepo (repo_url a) (get (fst (transformBasicEvent ctx p)) ''base_repository_url'') \<and>
    ((truthy (get (overrideBranchOptions (Some a) branchOverride) ''branch'') \<and>
      get (overrideBranchOptions (Some a) branchOverride) ''branch'' =
        get (fst (transformBasicEvent ctx p)) ''branch'') \<or>
     (truthy (get (overrideBranchOptions (Some a) branchOverride) ''tag'') \<and>
      get (overrideBranchOptions (Some a) branchOverride) ''tag'' =
        get (fst (transformBasicEvent ctx p)) ''tag'')) \<and>
    (commitOverride = [] \<or> commitOverride = sha ctx)"
  then show "fst (processOverrides sameRepo (Some a) (Some (fst (transformBasicEvent ctx p)))
             branchOverride commitOverride) = fst (transformBasicEvent ctx p)"
    by (intro processOverrides_adopts_default [OF refl refl]) simp_all
next
  assume "case appDetails of None \<Rightarrow> True | Some a' \<Rightarrow> repo_url a' = []"
  then show "fst (processOverrides sameRepo appDetails d branchOverride commitOverride) =
        narrowToCommit d commitOverride (overrideBranchOptions appDetails branchOverride)"
    by (simp add: processOverrides_def useDefaultOptions_without_url)
qed

theorem processOverrides_adopts_base_event_witness:
  "repo_url ex_app \<noteq> [] \<and>
   exact_url_match (repo_url ex_app)
     (get (fst (transformBasicEvent ex_push_ctx ex_push)) ''base_repository_url'') \<and>
   get (overrideBranchOptions (Some ex_app) ''refs/heads/main'') ''branch'' = Str ''main'' \<and>
   get (fst (transformBasicEvent ex_push_ctx ex_push)) ''branch'' = Str ''main'' \<and>
   sha ex_push_ctx = ''abc123'' \<and>
   fst (processOverrides exact_url_match (Some ex_app)
          (Some (fst (transformBasicEvent ex_push_ctx ex_push))) ''refs/heads/main'' ''abc123'') =
     fst (transformBasicEvent ex_push_ctx ex_push) \<and>
   fst (processOverrides exact_url_match None
          (Some (fst (transformBasicEvent ex_push_ctx ex_push))) ''refs/heads/main'' []) =
     [''branch'' \<mapsto> Str ''main'']"
proof -
  have u: "repo_url ex_app \<noteq> []"
    and r: "exact_url_match (repo_url ex_app)
             (get (fst (transformBasicEvent ex_push_ctx ex_push)) ''base_repository_url'')"
    and b: "get (overrideBranchOptions (Some ex_app) ''refs/heads/main'') ''branch'' = Str ''main''"
    and b': "get (fst (transformBasicEvent ex_push_ctx ex_push)) ''branch'' = Str ''main''"
    and s: "sha ex_push_ctx = ''abc123''"
    by (simp_all add: ex_push_options ex_override_main get_def)
      (simp_all add: ex_app_def exact_url_match_def ex_push_ctx_def)
  have n: "narrowToCommit (Some (fst (transformBasicEvent ex_push_ctx ex_push))) []
             (overrideBranchOptions None ''refs/heads/main'') = [''branch'' \<mapsto> Str ''main'']"
    by (simp add: narrowToCommit_def ex_override_main)
  have "fst (processOverrides exact_url_match (Some ex_app)
          (Some (fst (transformBasicEvent ex_push_ctx ex_push))) ''refs/heads/main'' ''abc123'') =
     fst (transformBasicEvent ex_push_ctx ex_push)"
    and "fst (processOverrides exact_url_match None
          (Some (fst (transformBasicEvent ex_push_ctx ex_push))) ''refs/heads/main'' []) =
     narrowToCommit (Some (fst (transformBasicEvent ex_push_ctx ex_push))) []
       (overrideBranchOptions None ''refs/heads/main'')"
    using u r b b' s
      processOverrides_adopts_base_event
        [of ex_app exact_url_match ex_push_ctx ex_push "''refs/heads/main''" "''abc123''"
          None "Some (fst (transformBasicEvent ex_push_ctx ex_push))"]
      processOverrides_adopts_base_event
        [of ex_app exact_url_match ex_push_ctx ex_push "''refs/heads/main''" "[]"
          None "Some (fst (transformBasicEvent ex_push_ctx ex_push))"]
    by simp_all
  then show ?thesis
    using u r b b' s by (simp only: n simp_thms)
qed

lemma ex_empty_ref_options:
  "fst (transformBasicEvent ex_empty_ref_ctx ex_push) =
     [''branch'' \<mapsto> Str [],
      ''commit_hash'' \<mapsto> Str ''abc123'',
      ''commit_message'' \<mapsto> Str ''fix typo'',
      ''commit_messages'' \<mapsto> StrList [''add login'', ''fix typo''],
      ''commit_paths'' \<mapsto>
         Paths [\<lparr>added = [''login.ts''], removed = [], modified = []\<rparr>,
                \<lparr>added = [], removed = [''old.ts''], modified = [''README.md'']\<rparr>],
      ''base_repository_url'' \<mapsto> Str ''https://github.com/acme/app.git'']"
  by (simp add: transformBasicEvent_def startsWith_def slice_def strOpt_def
      getRepositoryURL_def Let_def ex_empty_ref_ctx_def ex_defs)

lemma ex_override_empty:
  "overrideBranchOptions (Some ex_app) ''refs/heads/'' =
     [''base_repository_url'' \<mapsto> Str ''https://github.com/acme/app.git'',
      ''branch'' \<mapsto> Str []]"
  by (simp add: overrideBranchOptions_def startsWith_def slice_def ex_app_def)

text \<open>
  Both added conditions are needed; each of the two inputs below meets everything the
  claim asks and gets options that are not the result of the base-event transform.

  The commit override: on a push to \<^verbatim>\<open>main\<close> of the application's own repository, the
  override \<^verbatim>\<open>refs/heads/main\<close> resolves to the branch of the event; with the commit
  override \<^verbatim>\<open>older1\<close>, which is not the commit of the event, the step of lines 238 to
  245 runs after the adoption and the options have no \<open>commit_messages\<close>.

  The empty name: when the ref of the event and the override are both \<^verbatim>\<open>refs/heads/\<close>,
  they resolve to the same branch name, the empty one; the test of line 219 reads the
  name for truth, the default options are not adopted, and the options have no
  \<open>commit_messages\<close>.
\<close>

theorem processOverrides_adopts_base_event_counterexample:
  "repo_url ex_app \<noteq> [] \<and>
   exact_url_match (repo_url ex_app)
     (get (fst (transformBasicEvent ex_push_ctx ex_push)) ''base_repository_url'') \<and>
   get (overrideBranchOptions (Some ex_app) ''refs/heads/main'') ''branch'' = Str ''main'' \<and>
   get (fst (transformBasicEvent ex_push_ctx ex_push)) ''branch'' = Str ''main'' \<and>
   fst (transformBasicEvent ex_push_ctx ex_push) ''commit_messages'' =
     Some (StrList [''add login'', ''fix typo'']) \<and>
   fst (processOverrides exact_url_match (Some ex_app)
          (Some (fst (transformBasicEvent ex_push_ctx ex_push))) ''refs/heads/main'' ''older1'')
     ''commit_messages'' = None \<and>
   fst (processOverrides exact_url_match (Some ex_app)
          (Some (fst (transformBasicEvent ex_push_ctx ex_push))) ''refs/heads/main'' ''older1'') \<noteq>
     fst (transformBasicEvent ex_push_ctx ex_push) \<and>
   exact_url_match (repo_url ex_app)
     (get (fst (transformBasicEvent ex_empty_ref_ctx ex_push)) ''base_repository_url'') \<and>
   get (overrideBranchOptions (Some ex_app) ''refs/heads/'') ''branch'' = Str [] \<and>
   get (fst (transformBasicEvent ex_empty_ref_ctx ex_push)) ''branch'' = Str [] \<and>
   fst (transformBasicEvent ex_empty_ref_ctx ex_push) ''commit_messages'' =
     Some (StrList [''add login'', ''fix typo'']) \<and>
   fst (processOverrides exact_url_match (Some ex_app)
          (Some (fst (transformBasicEvent ex_empty_ref_ctx ex_push))) ''refs/heads/'' [])
     ''commit_messages'' = None \<and>
   fst (processOverrides exact_url_match (Some ex_app)
          (Some (fst (transformBasicEvent ex_empty_ref_ctx ex_push))) ''refs/heads/'' []) \<noteq>
     fst (transformBasicEvent ex_empty_ref_ctx ex_push)"
proof -
  have r2: "exact_url_match (repo_url ex_app)
             (get (fst (transformBasicEvent ex_empty_ref_ctx ex_push)) ''base_repository_url'')"
    and e: "get (overrideBranchOptions (Some ex_app) ''refs/heads/'') ''branch'' = Str []"
    and e': "get (fst (transformBasicEvent ex_empty_ref_ctx ex_push)) ''branch'' = Str []"
    and m2: "fst (transformBasicEvent ex_empty_ref_ctx ex_push) ''commit_messages'' =
             Some (StrList [''add login'', ''fix typo''])"
    by (simp_all add: ex_empty_ref_options ex_override_empty get_def)
      (simp_all add: ex_app_def exact_url_match_def)
  have c2: "fst (processOverrides exact_url_match (Some ex_app)
          (Some (fst (transformBasicEvent ex_empty_ref_ctx ex_push))) ''refs/heads/'' [])
     ''commit_messages'' = None"
    by (simp add: processOverrides_def narrowToCommit_def useDefaultOptions_def getOpt_def
        get_def ex_empty_ref_options ex_override_empty)
  from m2 c2 have d2: "fst (processOverrides exact_url_match (Some ex_app)
          (Some (fst (transformBasicEvent ex_empty_ref_ctx ex_push))) ''refs/heads/'' []) \<noteq>
     fst (transformBasicEvent ex_empty_ref_ctx ex_push)"
    by auto
  have u: "repo_url ex_app \<noteq> []"
    and r: "exact_url_match (repo_url ex_app)
             (get (fst (transformBasicEvent ex_push_ctx ex_push)) ''base_repository_url'')"
    and b: "get (overrideBranchOptions (Some ex_app) ''refs/heads/main'') ''branch'' = Str ''main''"
    and b': "get (fst (transformBasicEvent ex_push_ctx ex_push)) ''branch'' = Str ''main''"
    and m: "fst (transformBasicEvent ex_push_ctx ex_push) ''commit_messages'' =
             Some (StrList [''add login'', ''fix typo''])"
    by (simp_all add: ex_push_options ex_override_main get_def)
      (simp_all add: ex_app_def exact_url_match_def)
  have c: "fst (processOverrides exact_url_match (Some ex_app)
          (Some (fst (transformBasicEvent ex_push_ctx ex_push))) ''refs/heads/main'' ''older1'')
     ''commit_messages'' = None"
    by (simp add: processOverrides_def narrowToCommit_def getOpt_def get_def ex_push_options)
  from m c have "fst (processOverrides exact_url_match (Some ex_app)
          (Some (fst (transformBasicEvent ex_push_ctx ex_push))) ''refs/heads/main'' ''older1'') \<noteq>
     fst (transformBasicEvent ex_push_ctx ex_push)"
    by auto
  with u r b b' m c r2 e e' m2 c2 d2 show ?thesis
    by (simp only: simp_thms)
qed

text \<open>
  C4. Let the accumulated options be what the override transform returns without a commit
  override. When a commit override is given and differs from the \<open>commit_hash\<close> of the
  default options, the override transform returns an object with exactly the keys
  \<open>branch\<close>, \<open>tag\<close>, \<open>commit_hash\<close> and \<open>base_repository_url\<close>: the commit is the override,
  the three others are read from the accumulated options, and every other accumulated
  field is gone. When the commit override is given and equals that \<open>commit_hash\<close>, the
  override transform returns the accumulated options unchanged.
\<close>

theorem processOverrides_commit_narrowing:
  "(commitOverride \<noteq> [] \<and> Str commitOverride \<noteq> getOpt d ''commit_hash'' \<longrightarrow>
      fst (processOverrides sameRepo appDetails d branchOverride commitOverride) =
        [''branch'' \<mapsto> get (fst (processOverrides sameRepo appDetails d branchOverride []))
                          ''branch'',
         ''tag'' \<mapsto> get (fst (processOverrides sameRepo appDetails d branchOverride [])) ''tag'',
         ''commit_hash'' \<mapsto> Str commitOverride,
         ''base_repository_url'' \<mapsto>
            get (fst (processOverrides sameRepo appDetails d branchOverride []))
              ''base_repository_url''] \<and>
      dom (fst (processOverrides sameRepo appDetails d branchOverride commitOverride)) =
        {''branch'', ''tag'', ''commit_hash'', ''base_repository_url''}) \<and>
   (commitOverride \<noteq> [] \<and> Str commitOverride = getOpt d ''commit_hash'' \<longrightarrow>
      fst (processOverrides sameRepo appDetails d branchOverride commitOverride) =
        fst (processOverrides sameRepo appDetails d branchOverride []))"
  by (auto simp add: processOverrides_def narrowToCommit_def)

theorem processOverrides_commit_narrowing_witness:
  "getOpt (Some (fst (transformBasicEvent ex_push_ctx ex_push))) ''commit_hash'' = Str ''abc123'' \<and>
   fst (processOverrides exact_url_match (Some ex_app)
          (Some (fst (transformBasicEvent ex_push_ctx ex_push))) ''refs/heads/main'' ''older1'') =
     [''branch'' \<mapsto> Str ''main'', ''tag'' \<mapsto> Undefined, ''commit_hash'' \<mapsto> Str ''older1'',
      ''base_repository_url'' \<mapsto> Str ''https://github.com/acme/app.git''] \<and>
   fst (processOverrides exact_url_match (Some ex_app)
          (Some (fst (transformBasicEvent ex_push_ctx ex_push))) ''refs/heads/main'' ''abc123'')
     ''commit_messages'' = Some (StrList [''add login'', ''fix typo''])"
proof -
  have h: "getOpt (Some (fst (transformBasicEvent ex_push_ctx ex_push))) ''commit_hash'' =
           Str ''abc123''"
    by (simp add: getOpt_def get_def ex_push_options)
  have acc: "fst (processOverrides exact_url_match (Some ex_app)
               (Some (fst (transformBasicEvent ex_push_ctx ex_push))) ''refs/heads/main'' []) =
             fst (transformBasicEvent ex_push_ctx ex_push)"
    by (rule processOverrides_adopts_default [OF refl refl])
      (simp_all add: ex_push_options ex_override_main get_def,
       simp_all add: ex_app_def exact_url_match_def)
  have g: "get (fst (transformBasicEvent ex_push_ctx ex_push)) ''branch'' = Str ''main''"
    "get (fst (transformBasicEvent ex_push_ctx ex_push)) ''tag'' = Undefined"
    "get (fst (transformBasicEvent ex_push_ctx ex_push)) ''base_repository_url'' =
       Str ''https://github.com/acme/app.git''"
    "fst (transformBasicEvent ex_push_ctx ex_push) ''commit_messages'' =
       Some (StrList [''add login'', ''fix typo''])"
    by (simp_all add: get_def ex_push_options)
  have n1: "''older1'' \<noteq> []" "Str ''older1'' \<noteq> Str ''abc123''"
    and n2: "''abc123'' \<noteq> []"
    by simp_all
  show ?thesis
    using h n1 n2
      processOverrides_commit_narrowing
        [of "''older1''" "Some (fst (transformBasicEvent ex_push_ctx ex_push))"
          exact_url_match "Some ex_app" "''refs/heads/main''"]
      processOverrides_commit_narrowing
        [of "''abc123''" "Some (fst (transformBasicEvent ex_push_ctx ex_push))"
          exact_url_match "Some ex_app" "''refs/heads/main''"]
    by (simp add: acc g)
qed

subsection \<open>The order of the environment passthrough\<close>

lemma mapped_to_prepareEnvironmentVariables:
  "map mapped_to (prepareEnvironmentVariables raw penv) =
     filter (\<lambda>k. k \<in> set (envPassThrough raw)) (map fst penv)"
  by (induction penv) (auto simp add: prepareEnvironmentVariables_def)

lemma prepareEnvironmentVariables_entry:
  assumes "e \<in> set (prepareEnvironmentVariables raw penv)"
  obtains k v where "(k, v) \<in> set penv" "k \<in> set (envPassThrough raw)"
    "e = \<lparr>mapped_to = k, env_value = (case v of None \<Rightarrow> [] | Some s \<Rightarrow> s), is_expand = False\<rparr>"
  using assms by (auto simp add: prepareEnvironmentVariables_def)

text \<open>
  C5, as amended. When the names of the environment are distinct, the passthrough lists the
  entries of the environment whose name is in the allow-list, in the order in which the
  environment lists them: one entry for each name that is both in the allow-list and in
  the environment, and no other. Each entry carries the value the environment gives the
  name, the empty string when it gives none, and its expand flag is false.
\<close>

theorem prepareEnvironmentVariables_passthrough:
  assumes "distinct (map fst penv)"
  shows "map mapped_to (prepareEnvironmentVariables raw penv) =
           filter (\<lambda>k. k \<in> set (envPassThrough raw)) (map fst penv) \<and>
         distinct (map mapped_to (prepareEnvironmentVariables raw penv)) \<and>
         set (map mapped_to (prepareEnvironmentVariables raw penv)) =
           set (envPassThrough raw) \<inter> fst ` set penv \<and>
         (\<forall>e \<in> set (prepareEnvironmentVariables raw penv).
            \<not> is_expand e \<and>
            (\<exists>v. map_of penv (mapped_to e) = Some v \<and>
                 env_value e = (case v of None \<Rightarrow> [] | Some s \<Rightarrow> s)))"
proof (intro conjI ballI)
  show names: "map mapped_to (prepareEnvironmentVariables raw penv) =
           filter (\<lambda>k. k \<in> set (envPassThrough raw)) (map fst penv)"
    by (rule mapped_to_prepareEnvironmentVariables)
  show "distinct (map mapped_to (prepareEnvironmentVariables raw penv))"
    unfolding names using assms by (rule distinct_filter)
  show "set (map mapped_to (prepareEnvironmentVariables raw penv)) =
           set (envPassThrough raw) \<inter> fst ` set penv"
    unfolding names by auto
next
  fix e
  assume "e \<in> set (prepareEnvironmentVariables raw penv)"
  then obtain k v where kv: "(k, v) \<in> set penv"
    and e: "e = \<lparr>mapped_to = k, env_value = (case v of None \<Rightarrow> [] | Some s \<Rightarrow> s),
                 is_expand = False\<rparr>"
    by (rule prepareEnvironmentVariables_entry)
  from assms kv have "map_of penv k = Some v"
    by (rule map_of_is_SomeI)
  then show "\<exists>v. map_of penv (mapped_to e) = Some v \<and>
                 env_value e = (case v of None \<Rightarrow> [] | Some s \<Rightarrow> s)"
    by (simp add: e)
  show "\<not> is_expand e"
    by (simp add: e)
qed

lemma envPassThrough_examples:
  "envPassThrough ''A,C'' = [''A'', ''C'']"
  "envPassThrough ''B,A'' = [''B'', ''A'']"
  by (simp_all add: envPassThrough_def trim_def js_whitespace_def)

theorem prepareEnvironmentVariables_passthrough_witness:
  "distinct (map fst ex_env) \<and>
   envPassThrough ''A,C'' = [''A'', ''C''] \<and>
   map mapped_to (prepareEnvironmentVariables ''A,C'' ex_env) = [''A''] \<and>
   (\<exists>e. prepareEnvironmentVariables ''A,C'' ex_env = [e] \<and> \<not> is_expand e \<and>
        env_value e = ''1'')"
proof -
  have d: "distinct (map fst ex_env)"
    by (simp add: ex_env_def)
  note t = prepareEnvironmentVariables_passthrough [OF d, of "''A,C''"]
  from t have names: "map mapped_to (prepareEnvironmentVariables ''A,C'' ex_env) = [''A'']"
    by (simp add: envPassThrough_examples ex_env_def)
  then obtain e where one: "prepareEnvironmentVariables ''A,C'' ex_env = [e]"
    and a: "mapped_to e = ''A''"
    by auto
  from t one have "\<not> is_expand e \<and>
    (\<exists>v. map_of ex_env (mapped_to e) = Some v \<and>
         env_value e = (case v of None \<Rightarrow> [] | Some s \<Rightarrow> s))"
    by simp
  then have "\<not> is_expand e \<and> env_value e = ''1''"
    by (auto simp add: a ex_env_def)
  with d names one show ?thesis
    by (simp add: envPassThrough_examples)
qed

text \<open>
  The order is not that of the allow-list: for the allow-list \<^verbatim>\<open>B,A\<close> and an
  environment that lists \<open>A\<close> before \<open>B\<close>, the passthrough returns the entry of \<open>A\<close>
  first.
\<close>

theorem prepareEnvironmentVariables_passthrough_counterexample:
  "envPassThrough ''B,A'' = [''B'', ''A''] \<and>
   prepareEnvironmentVariables ''B,A'' ex_env =
     [\<lparr>mapped_to = ''A'', env_value = ''1'', is_expand = False\<rparr>,
      \<lparr>mapped_to = ''B'', env_value = ''2'', is_expand = False\<rparr>] \<and>
   passthrough_in_allow_list_order (envPassThrough ''B,A'') ex_env =
     [\<lparr>mapped_to = ''B'', env_value = ''2'', is_expand = False\<rparr>,
      \<lparr>mapped_to = ''A'', env_value = ''1'', is_expand = False\<rparr>] \<and>
   prepareEnvironmentVariables ''B,A'' ex_env \<noteq>
     passthrough_in_allow_list_order (envPassThrough ''B,A'') ex_env"
  by (simp add: prepareEnvironmentVariables_def passthrough_in_allow_list_order_def
      envPassThrough_examples ex_env_def)

end
